theory Spec2Isabelle
  imports
    Main
    "HOL-Library.AList"
    "HOL-Library.Log_Nat"
    "HOL-Library.Char_ord"
    "HOL-Library.List_Lexorder"
begin

section \<open>Python values, exceptions and primitives\<close>

text \<open>
  The module \<^verbatim>\<open>ckanext/doi/lib/metadata.py\<close> works on untyped Python values. The
  embedding covers the values a CKAN package dictionary is made of: \<^verbatim>\<open>None\<close>,
  integers, strings, lists and dictionaries with string keys, and \<open>PObj\<close>, an opaque
  object (a date, for instance) of which only \<^verbatim>\<open>str()\<close> is known: it is truthy and
  hashable, has no length, no items, no attributes and no ordering. Floats, booleans,
  tuples, sets and bytes are outside the embedding. A string is a list of characters
  with code points below 256. A dictionary is an association list in insertion order.
\<close>

datatype pyval =
    PNone
  | PInt int
  | PStr string
  | PList "pyval list"
  | PDict "(string \<times> pyval) list"
  | PObj string

datatype exn =
    KeyError
  | TypeError
  | ValueError
  | IndexError
  | AttributeError
  | OverflowError
  | SyntaxError
  | DOIMetadataException string
  | OtherError string

type_synonym dict = "(string \<times> pyval) list"

type_synonym errmap = "(string \<times> exn) list"

text \<open>Sequencing of computations that may raise: the first exception wins.\<close>

fun bnd :: "exn + 'a \<Rightarrow> ('a \<Rightarrow> exn + 'b) \<Rightarrow> exn + 'b" where
  "bnd (Inl e) f = Inl e"
| "bnd (Inr x) f = f x"

fun map_result :: "('a \<Rightarrow> exn + 'b) \<Rightarrow> 'a list \<Rightarrow> exn + 'b list" where
  "map_result f [] = Inr []"
| "map_result f (x # xs) = bnd (f x) (\<lambda>y. bnd (map_result f xs) (\<lambda>ys. Inr (y # ys)))"

text \<open>The exception a computation raised, if any.\<close>

fun raised :: "exn + 'a \<Rightarrow> exn option" where
  "raised (Inl e) = Some e"
| "raised (Inr x) = None"

subsection \<open>Dictionaries\<close>

text \<open>\<^verbatim>\<open>d.get(k)\<close>, \<^verbatim>\<open>d.get(k, default)\<close>, \<^verbatim>\<open>d[k]\<close>, \<^verbatim>\<open>k in d\<close>, \<^verbatim>\<open>d[k] = v\<close> and
  \<^verbatim>\<open>d.update(d2)\<close>. Assigning to a key that is present keeps its position.\<close>

definition dict_get_default :: "dict \<Rightarrow> string \<Rightarrow> pyval \<Rightarrow> pyval" where
  "dict_get_default d k dflt = (case map_of d k of None \<Rightarrow> dflt | Some v \<Rightarrow> v)"

definition dict_get :: "dict \<Rightarrow> string \<Rightarrow> pyval" where
  "dict_get d k = dict_get_default d k PNone"

definition dict_getitem :: "dict \<Rightarrow> string \<Rightarrow> exn + pyval" where
  "dict_getitem d k = (case map_of d k of None \<Rightarrow> Inl KeyError | Some v \<Rightarrow> Inr v)"

definition dict_has :: "('k \<times> 'v) list \<Rightarrow> 'k \<Rightarrow> bool" where
  "dict_has d k = (k \<in> set (map fst d))"

definition dict_set :: "'k \<Rightarrow> 'v \<Rightarrow> ('k \<times> 'v) list \<Rightarrow> ('k \<times> 'v) list" where
  "dict_set k v d = AList.update k v d"

definition dict_update :: "('k \<times> 'v) list \<Rightarrow> ('k \<times> 'v) list \<Rightarrow> ('k \<times> 'v) list" where
  "dict_update d d2 = foldl (\<lambda>acc kv. dict_set (fst kv) (snd kv) acc) d d2"

subsection \<open>Operations on values\<close>

text \<open>Truthiness, as \<^verbatim>\<open>x or y\<close> and \<^verbatim>\<open>filter(None, ...)\<close> test it.\<close>

fun truthy :: "pyval \<Rightarrow> bool" where
  "truthy PNone = False"
| "truthy (PInt n) = (n \<noteq> 0)"
| "truthy (PStr s) = (s \<noteq> [])"
| "truthy (PList xs) = (xs \<noteq> [])"
| "truthy (PDict d) = (d \<noteq> [])"
| "truthy (PObj s) = True"

definition py_or :: "pyval \<Rightarrow> pyval \<Rightarrow> pyval" where
  "py_or a b = (if truthy a then a else b)"

text \<open>\<^verbatim>\<open>len(v)\<close>: a \<^verbatim>\<open>TypeError\<close> for a value with no length.\<close>

fun py_len :: "pyval \<Rightarrow> exn + nat" where
  "py_len (PStr s) = Inr (length s)"
| "py_len (PList xs) = Inr (length xs)"
| "py_len (PDict d) = Inr (length d)"
| "py_len PNone = Inl TypeError"
| "py_len (PInt n) = Inl TypeError"
| "py_len (PObj s) = Inl TypeError"

text \<open>\<^verbatim>\<open>for x in v\<close>: a list gives its elements, a string its characters, a dictionary
  its keys; nothing else is iterable.\<close>

fun py_iter :: "pyval \<Rightarrow> exn + pyval list" where
  "py_iter (PList xs) = Inr xs"
| "py_iter (PStr s) = Inr (map (\<lambda>c. PStr [c]) s)"
| "py_iter (PDict d) = Inr (map (\<lambda>kv. PStr (fst kv)) d)"
| "py_iter PNone = Inl TypeError"
| "py_iter (PInt n) = Inl TypeError"
| "py_iter (PObj s) = Inl TypeError"

text \<open>\<^verbatim>\<open>v['key']\<close> with a string key: \<^verbatim>\<open>KeyError\<close> on a dictionary without the key,
  \<^verbatim>\<open>TypeError\<close> on everything that is not a dictionary.\<close>

fun py_getitem :: "pyval \<Rightarrow> string \<Rightarrow> exn + pyval" where
  "py_getitem (PDict d) k = dict_getitem d k"
| "py_getitem PNone k = Inl TypeError"
| "py_getitem (PInt n) k = Inl TypeError"
| "py_getitem (PStr s) k = Inl TypeError"
| "py_getitem (PList xs) k = Inl TypeError"
| "py_getitem (PObj s) k = Inl TypeError"

text \<open>\<^verbatim>\<open>v[i]\<close> with a constant index \<open>i \<ge> 0\<close>: \<^verbatim>\<open>IndexError\<close> past the end of a list or
  string, \<^verbatim>\<open>KeyError\<close> on a dictionary (its keys are strings), \<^verbatim>\<open>TypeError\<close> otherwise.\<close>

fun py_index :: "pyval \<Rightarrow> nat \<Rightarrow> exn + pyval" where
  "py_index (PList xs) i = (if i < length xs then Inr (xs ! i) else Inl IndexError)"
| "py_index (PStr s) i = (if i < length s then Inr (PStr [s ! i]) else Inl IndexError)"
| "py_index (PDict d) i = Inl KeyError"
| "py_index PNone i = Inl TypeError"
| "py_index (PInt n) i = Inl TypeError"
| "py_index (PObj s) i = Inl TypeError"

text \<open>The method call \<^verbatim>\<open>v.get('key')\<close>: only a dictionary has the method.\<close>

fun py_get :: "pyval \<Rightarrow> string \<Rightarrow> exn + pyval" where
  "py_get (PDict d) k = Inr (dict_get d k)"
| "py_get PNone k = Inl AttributeError"
| "py_get (PInt n) k = Inl AttributeError"
| "py_get (PStr s) k = Inl AttributeError"
| "py_get (PList xs) k = Inl AttributeError"
| "py_get (PObj s) k = Inl AttributeError"

fun hashable :: "pyval \<Rightarrow> bool" where
  "hashable (PList xs) = False"
| "hashable (PDict d) = False"
| "hashable PNone = True"
| "hashable (PInt n) = True"
| "hashable (PStr s) = True"
| "hashable (PObj s) = True"

fun is_str :: "pyval \<Rightarrow> bool" where
  "is_str (PStr s) = True"
| "is_str PNone = False"
| "is_str (PInt n) = False"
| "is_str (PList xs) = False"
| "is_str (PDict d) = False"
| "is_str (PObj s) = False"

fun is_int :: "pyval \<Rightarrow> bool" where
  "is_int (PInt n) = True"
| "is_int PNone = False"
| "is_int (PStr s) = False"
| "is_int (PList xs) = False"
| "is_int (PDict d) = False"
| "is_int (PObj s) = False"

subsection \<open>Strings\<close>

definition digit_char :: "nat \<Rightarrow> char" where
  "digit_char d = ''0123456789'' ! d"

fun nat_str :: "nat \<Rightarrow> string" where
  "nat_str n = (if n < 10 then [digit_char n] else nat_str (n div 10) @ [digit_char (n mod 10)])"

declare nat_str.simps [simp del]

text \<open>\<^verbatim>\<open>str(i)\<close> of an integer, as an f-string renders it.\<close>

definition str_int :: "int \<Rightarrow> string" where
  "str_int i = (if i < 0 then CHR ''-'' # nat_str (nat (- i)) else nat_str (nat i))"

text \<open>\<^verbatim>\<open>s.isdecimal()\<close>: at least one character, and every character a decimal digit
  (below code point 256 the decimal characters are \<^verbatim>\<open>0\<close> to \<^verbatim>\<open>9\<close>).\<close>

definition isdecimal :: "string \<Rightarrow> bool" where
  "isdecimal s = (s \<noteq> [] \<and> list_all (\<lambda>c. c \<in> set ''0123456789'') s)"

text \<open>\<^verbatim>\<open>s.split(sep)\<close> for a one-character separator, and \<^verbatim>\<open>sep.join(xs)\<close>.\<close>

fun split_on :: "char \<Rightarrow> string \<Rightarrow> string list" where
  "split_on sep [] = [[]]"
| "split_on sep (c # cs) =
     (if c = sep then [] # split_on sep cs
      else (case split_on sep cs of [] \<Rightarrow> [[c]] | w # ws \<Rightarrow> (c # w) # ws))"

fun join :: "string \<Rightarrow> string list \<Rightarrow> string" where
  "join sep [] = []"
| "join sep [x] = x"
| "join sep (x # y # ys) = x @ sep @ join sep (y # ys)"

subsection \<open>Sets and sorting\<close>

text \<open>\<^verbatim>\<open>sorted({...})\<close>: building the set needs hashable elements and removes
  duplicates; sorting two or more elements needs them all strings or all integers.\<close>

definition the_str :: "pyval \<Rightarrow> string" where
  "the_str v = (case v of PStr s \<Rightarrow> s | _ \<Rightarrow> [])"

definition the_int :: "pyval \<Rightarrow> int" where
  "the_int v = (case v of PInt n \<Rightarrow> n | _ \<Rightarrow> 0)"

definition py_set :: "pyval list \<Rightarrow> exn + pyval list" where
  "py_set xs = (if list_all hashable xs then Inr (remdups xs) else Inl TypeError)"

definition py_sorted :: "pyval list \<Rightarrow> exn + pyval list" where
  "py_sorted xs =
     (if length xs \<le> 1 then Inr xs
      else if list_all is_str xs then Inr (map PStr (sort (map the_str xs)))
      else if list_all is_int xs then Inr (map PInt (sort (map the_int xs)))
      else Inl TypeError)"

subsection \<open>Integer arithmetic through floats\<close>

text \<open>
  \<^verbatim>\<open>int(n / 1024)\<close> for an integer \<open>n\<close>: the true division gives the double nearest to
  the quotient (ties to even), \<^verbatim>\<open>int\<close> truncates it towards zero. Dividing by a power of
  two only changes the exponent, so the double is \<open>n\<close> rounded to 53 significant bits,
  over 1024. A quotient that rounds to \<open>2 ^ 1024\<close> or more raises \<^verbatim>\<open>OverflowError\<close>.
\<close>

definition round53 :: "int \<Rightarrow> int" where
  "round53 a =
     (let e = bitlen a - 53 in
      if e \<le> 0 then a
      else (let p = 2 ^ nat e; q = a div p; r = a mod p
            in (if p < 2 * r \<or> (2 * r = p \<and> odd q) then q + 1 else q) * p))"

definition int_truediv_1024 :: "int \<Rightarrow> exn + int" where
  "int_truediv_1024 n =
     (let m = round53 \<bar>n\<bar> in
      if 2 ^ 1034 \<le> m then Inl OverflowError else Inr (sgn n * (m div 1024)))"

text \<open>\<^verbatim>\<open>sum(xs)\<close>, starting from the integer 0: only integers can be added to it.\<close>

fun py_sum_from :: "int \<Rightarrow> pyval list \<Rightarrow> exn + int" where
  "py_sum_from acc [] = Inr acc"
| "py_sum_from acc (PInt n # xs) = py_sum_from (acc + n) xs"
| "py_sum_from acc (x # xs) = Inl TypeError"

definition py_sum :: "pyval list \<Rightarrow> exn + int" where
  "py_sum xs = py_sum_from 0 xs"

section \<open>The environment of the module\<close>

text \<open>
  What the module imports and calls but does not define is a parameter of the embedding:
  \<^verbatim>\<open>ast.literal_eval\<close>, \<^verbatim>\<open>toolkit.config.get\<close>, the year of \<^verbatim>\<open>datetime.datetime.now()\<close>,
  the helpers \<^verbatim>\<open>date_or_none\<close> and \<^verbatim>\<open>get_site_url\<close>, \<^verbatim>\<open>ckan.lib.helpers.lang\<close>,
  \<^verbatim>\<open>Package.get_license_register()\<close> (a lookup \<^verbatim>\<open>register.get(license_id)\<close> that finds a
  license with a \<^verbatim>\<open>url\<close> and an \<^verbatim>\<open>id\<close>, finds nothing, or raises), \<^verbatim>\<open>str(float(v))\<close>,
  \<^verbatim>\<open>str\<close> of a list or dictionary, and the registered \<^verbatim>\<open>IDoi\<close> plugins in
  registration order.
\<close>

record license =
  lic_url :: pyval
  lic_id :: pyval

record plugin =
  plugin_build_metadata_dict :: "dict \<Rightarrow> dict \<Rightarrow> errmap \<Rightarrow> exn + (dict \<times> errmap)"
  plugin_build_xml_dict :: "dict \<Rightarrow> dict \<Rightarrow> exn + dict"

record env =
  literal_eval :: "pyval \<Rightarrow> exn + pyval"
  config_get :: "string \<Rightarrow> exn + pyval"
  now_year :: int
  date_or_none :: "pyval \<Rightarrow> exn + pyval"
  ckan_lang :: "exn + pyval"
  get_site_url :: "exn + pyval"
  get_license_register :: "exn + (pyval \<Rightarrow> exn + license option)"
  float_str :: "pyval \<Rightarrow> exn + string"
  str_container :: "pyval \<Rightarrow> string"
  plugins :: "plugin list"

text \<open>\<^verbatim>\<open>str(v)\<close>, as an f-string and \<^verbatim>\<open>str()\<close> render a value.\<close>

definition py_str :: "env \<Rightarrow> pyval \<Rightarrow> string" where
  "py_str env v =
     (case v of
        PStr s \<Rightarrow> s
      | PNone \<Rightarrow> ''None''
      | PInt n \<Rightarrow> str_int n
      | PObj s \<Rightarrow> s
      | PList xs \<Rightarrow> str_container env v
      | PDict d \<Rightarrow> str_container env v)"

section \<open>The field extractor \<^verbatim>\<open>build_metadata_dict\<close>\<close>

subsection \<open>The local dictionaries\<close>

text \<open>The local variables \<^verbatim>\<open>required\<close>, \<^verbatim>\<open>optional\<close>, \<^verbatim>\<open>errors\<close> and \<^verbatim>\<open>date_errors\<close>
  of \<^verbatim>\<open>build_metadata_dict\<close>, with their initial values (lines 32 to 41, 89 to 103, 144).\<close>

record st =
  required :: dict
  optional :: dict
  errors :: errmap
  date_errors :: errmap

definition required_init :: dict where
  "required_init =
     [(''creators'', PList []),
      (''titles'', PList []),
      (''publisher'', PNone),
      (''publicationYear'', PNone),
      (''resourceType'', PNone)]"

definition optional_init :: dict where
  "optional_init =
     [(''subjects'', PList []),
      (''contributors'', PList []),
      (''dates'', PList []),
      (''language'', PStr []),
      (''alternateIdentifiers'', PList []),
      (''relatedIdentifiers'', PList []),
      (''sizes'', PList []),
      (''formats'', PList []),
      (''version'', PStr []),
      (''rightsList'', PList []),
      (''descriptions'', PList []),
      (''geoLocations'', PList []),
      (''fundingReferences'', PList [])]"

definition st_init :: st where
  "st_init = \<lparr>required = required_init, optional = optional_init, errors = [], date_errors = []\<rparr>"

definition set_required :: "string \<Rightarrow> pyval \<Rightarrow> st \<Rightarrow> st" where
  "set_required k v s = s\<lparr>required := dict_set k v (required s)\<rparr>"

definition set_optional :: "string \<Rightarrow> pyval \<Rightarrow> st \<Rightarrow> st" where
  "set_optional k v s = s\<lparr>optional := dict_set k v (optional s)\<rparr>"

definition set_error :: "string \<Rightarrow> exn \<Rightarrow> st \<Rightarrow> st" where
  "set_error k e s = s\<lparr>errors := dict_set k e (errors s)\<rparr>"

definition set_date_error :: "string \<Rightarrow> exn \<Rightarrow> st \<Rightarrow> st" where
  "set_date_error k e s = s\<lparr>date_errors := dict_set k e (date_errors s)\<rparr>"

text \<open>The local function \<^verbatim>\<open>_add_required(key, get_func)\<close> (lines 43 to 47), and the
  same pattern written out for an optional key:
  \<^verbatim>\<open>try: optional[key] = ... except Exception as e: errors[key] = e\<close>.\<close>

definition add_required :: "string \<Rightarrow> exn + pyval \<Rightarrow> st \<Rightarrow> st" where
  "add_required k r s = (case r of Inr v \<Rightarrow> set_required k v s | Inl e \<Rightarrow> set_error k e s)"

definition try_optional :: "string \<Rightarrow> exn + pyval \<Rightarrow> st \<Rightarrow> st" where
  "try_optional k r s = (case r of Inr v \<Rightarrow> set_optional k v s | Inl e \<Rightarrow> set_error k e s)"

text \<open>A loop that appends to a list in place:
  \<^verbatim>\<open>for x in xs: the_list.append(f(x))\<close>. \<open>acc\<close> is the list object; when \<open>f\<close> raises,
  what was appended before stays in it. \<open>f\<close> gives \<open>None\<close> for an element the loop
  body skips.\<close>

fun append_each :: "('a \<Rightarrow> exn + pyval option) \<Rightarrow> 'a list \<Rightarrow> pyval list \<Rightarrow> pyval list \<times> exn option" where
  "append_each f [] acc = (acc, None)"
| "append_each f (x # xs) acc =
     (case f x of
        Inl e \<Rightarrow> (acc, Some e)
      | Inr None \<Rightarrow> append_each f xs acc
      | Inr (Some y) \<Rightarrow> append_each f xs (acc @ [y]))"

definition the_list :: "pyval \<Rightarrow> pyval list" where
  "the_list v = (case v of PList xs \<Rightarrow> xs | _ \<Rightarrow> [])"

subsection \<open>Creators and contributors (lines 49 to 69 and 119 to 140)\<close>

text \<open>Both loops append to a local list that is stored only after the loop, so an
  exception leaves the field at its default.\<close>

definition creator_entry :: "pyval \<Rightarrow> exn + pyval" where
  "creator_entry auth_dict =
     bnd (py_getitem auth_dict ''author_name'') (\<lambda>name.
     bnd (py_getitem auth_dict ''author_name_type'') (\<lambda>name_type.
     bnd (py_getitem auth_dict ''author_affiliation'') (\<lambda>aff.
     bnd (py_getitem auth_dict ''author_affiliation_identifier'') (\<lambda>aff_id.
     bnd (py_getitem auth_dict ''author_affiliation_identifier_type'') (\<lambda>aff_scheme.
     bnd (py_getitem auth_dict ''author_identifier'') (\<lambda>ident.
     bnd (py_getitem auth_dict ''author_identifier_type'') (\<lambda>ident_scheme.
     Inr (PDict
       [(''name'', name),
        (''nameType'', name_type),
        (''affiliation'', PList [PDict
           [(''name'', aff),
            (''affiliationIdentifier'', aff_id),
            (''affiliationIdentifierScheme'', aff_scheme)]]),
        (''nameIdentifiers'', PList [PDict
           [(''nameIdentifier'', ident),
            (''nameIdentifierScheme'', ident_scheme)]])]))))))))"

definition get_creators :: "env \<Rightarrow> dict \<Rightarrow> exn + pyval" where
  "get_creators env pkg =
     bnd (literal_eval env (dict_get pkg ''author'')) (\<lambda>auth_list.
       case auth_list of
         PList auth_dicts \<Rightarrow> bnd (map_result creator_entry auth_dicts) (\<lambda>creators_list. Inr (PList creators_list))
       | _ \<Rightarrow> Inr (PList []))"

definition contributor_entry :: "pyval \<Rightarrow> exn + pyval" where
  "contributor_entry auth_dict =
     bnd (py_getitem auth_dict ''author_name'') (\<lambda>name.
     bnd (py_getitem auth_dict ''author_name_type'') (\<lambda>name_type.
     bnd (py_getitem auth_dict ''author_affiliation'') (\<lambda>aff.
     bnd (py_getitem auth_dict ''author_affiliation_identifier'') (\<lambda>aff_id.
     bnd (py_getitem auth_dict ''author_affiliation_identifier_type'') (\<lambda>aff_scheme.
     bnd (py_getitem auth_dict ''author_identifier'') (\<lambda>ident.
     bnd (py_getitem auth_dict ''author_identifier_type'') (\<lambda>ident_scheme.
     Inr (PDict
       [(''name'', name),
        (''contributorType'', PStr ''ContactPerson''),
        (''nameType'', name_type),
        (''affiliation'', PList [PDict
           [(''name'', aff),
            (''affiliationIdentifier'', aff_id),
            (''affiliationIdentifierScheme'', aff_scheme)]]),
        (''nameIdentifiers'', PList [PDict
           [(''nameIdentifier'', ident),
            (''nameIdentifierScheme'', ident_scheme)]])]))))))))"

definition get_contributors :: "env \<Rightarrow> dict \<Rightarrow> exn + pyval" where
  "get_contributors env pkg =
     bnd (literal_eval env (dict_get pkg ''author'')) (\<lambda>auth_list.
       case auth_list of
         PList auth_dicts \<Rightarrow> bnd (map_result contributor_entry auth_dicts) (\<lambda>contributors_list. Inr (PList contributors_list))
       | _ \<Rightarrow> Inr (PList []))"

subsection \<open>Titles, publisher, publication year, resource type (lines 71 to 86)\<close>

definition get_titles :: "dict \<Rightarrow> pyval" where
  "get_titles pkg = PList [PDict [(''title'', dict_get pkg ''title'')]]"

text \<open>\<^verbatim>\<open>v[:4]\<close> and \<^verbatim>\<open>v.isdecimal()\<close> on an arbitrary value: a list can be sliced but
  has no \<^verbatim>\<open>isdecimal\<close>; what is neither a string nor a list cannot be sliced. (A
  dictionary sliced this way raises \<^verbatim>\<open>TypeError\<close> up to Python 3.11 and
  \<^verbatim>\<open>KeyError\<close> from 3.12 on; the properties below use neither.)\<close>

fun py_slice4 :: "pyval \<Rightarrow> exn + pyval" where
  "py_slice4 (PStr s) = Inr (PStr (take 4 s))"
| "py_slice4 (PList xs) = Inr (PList (take 4 xs))"
| "py_slice4 PNone = Inl TypeError"
| "py_slice4 (PInt n) = Inl TypeError"
| "py_slice4 (PDict d) = Inl TypeError"
| "py_slice4 (PObj s) = Inl TypeError"

fun py_isdecimal :: "pyval \<Rightarrow> exn + bool" where
  "py_isdecimal (PStr s) = Inr (isdecimal s)"
| "py_isdecimal PNone = Inl AttributeError"
| "py_isdecimal (PInt n) = Inl AttributeError"
| "py_isdecimal (PList xs) = Inl AttributeError"
| "py_isdecimal (PDict d) = Inl AttributeError"
| "py_isdecimal (PObj s) = Inl AttributeError"

text \<open>Lines 78 to 83. The test of line 79 stands outside every \<^verbatim>\<open>try\<close>: an exception
  of \<^verbatim>\<open>doi_date_published[:4].isdecimal()\<close> leaves \<^verbatim>\<open>build_metadata_dict\<close>.\<close>

definition publication_year_block :: "env \<Rightarrow> dict \<Rightarrow> st \<Rightarrow> exn + st" where
  "publication_year_block env pkg s =
     (let doi_date_published = dict_get pkg ''doi_date_published'' in
      if doi_date_published = PNone
      then Inr (add_required ''publicationYear'' (Inr (PInt (now_year env))) s)
      else
        bnd (py_slice4 doi_date_published) (\<lambda>head.
        bnd (py_isdecimal head) (\<lambda>dec.
          if dec
          then Inr (add_required ''publicationYear'' (py_slice4 doi_date_published) s)
          else Inr (add_required ''publicationYear'' (Inr (PInt (now_year env))) s))))"

subsection \<open>Subjects (lines 105 to 117)\<close>

fun py_split :: "pyval \<Rightarrow> char \<Rightarrow> exn + pyval list" where
  "py_split (PStr s) sep = Inr (map PStr (split_on sep s))"
| "py_split PNone sep = Inl AttributeError"
| "py_split (PInt n) sep = Inl AttributeError"
| "py_split (PList xs) sep = Inl AttributeError"
| "py_split (PDict d) sep = Inl AttributeError"
| "py_split (PObj s) sep = Inl AttributeError"

definition tag_name :: "pyval \<Rightarrow> exn + pyval" where
  "tag_name tag = (case tag of PDict d \<Rightarrow> dict_getitem d ''name'' | _ \<Rightarrow> Inr tag)"

definition get_subjects :: "dict \<Rightarrow> exn + pyval" where
  "get_subjects pkg =
     bnd (py_split (dict_get_default pkg ''tag_string'' (PStr [])) CHR '','') (\<lambda>tags.
     bnd (py_iter (dict_get_default pkg ''tags'' (PList []))) (\<lambda>tag_items.
     bnd (map_result tag_name tag_items) (\<lambda>names.
     bnd (py_set (filter (\<lambda>t. t \<noteq> PStr []) (tags @ names))) (\<lambda>tag_set.
     bnd (py_sorted tag_set) (\<lambda>sorted_tags.
     Inr (PList (map (\<lambda>tag. PDict [(''subject'', tag)]) sorted_tags)))))))"

subsection \<open>Dates (lines 142 to 172)\<close>

text \<open>Each of the three entries is appended to \<^verbatim>\<open>optional['dates']\<close> in a \<^verbatim>\<open>try\<close> of
  its own; an exception goes to the local \<^verbatim>\<open>date_errors\<close>, which nothing reads.\<close>

definition dates_item :: "string \<Rightarrow> pyval \<Rightarrow> pyval" where
  "dates_item date_type d = PDict [(''dateType'', PStr date_type), (''date'', d)]"

definition try_date :: "env \<Rightarrow> string \<Rightarrow> string \<Rightarrow> pyval \<Rightarrow> st \<Rightarrow> st" where
  "try_date env date_type err_key v s =
     (case date_or_none env v of
        Inr d \<Rightarrow> set_optional ''dates'' (PList (the_list (dict_get (optional s) ''dates'') @ [dates_item date_type d])) s
      | Inl e \<Rightarrow> set_date_error err_key e s)"

definition dates_block :: "env \<Rightarrow> dict \<Rightarrow> st \<Rightarrow> st" where
  "dates_block env pkg s =
     (let s = try_date env ''Created'' ''created'' (dict_get pkg ''metadata_created'') s;
          s = try_date env ''Updated'' ''updated'' (dict_get pkg ''metadata_modified'') s
      in if dict_has pkg ''doi_date_published''
         then try_date env ''Issued'' ''doi_date_published'' (dict_get pkg ''doi_date_published'') s
         else s)"

subsection \<open>Alternate and related identifiers (lines 181 to 202)\<close>

definition get_alternate_identifiers :: "env \<Rightarrow> dict \<Rightarrow> exn + pyval" where
  "get_alternate_identifiers env pkg =
     bnd (get_site_url env) (\<lambda>site_url.
     bnd (dict_getitem pkg ''id'') (\<lambda>pkg_id.
     Inr (PList [PDict
       [(''alternateIdentifierType'', PStr ''URL''),
        (''alternateIdentifier'', PStr (py_str env site_url @ ''/dataset/'' @ py_str env pkg_id))]])))"

definition related_entry :: "pyval \<Rightarrow> exn + pyval option" where
  "related_entry rel =
     bnd (py_getitem rel ''related_resource_url'') (\<lambda>rel_url.
     bnd (py_getitem rel ''relation_type'') (\<lambda>rel_type.
     Inr (Some (PDict
       [(''relatedIdentifier'', rel_url),
        (''relatedIdentifierType'', PStr ''URL''),
        (''relationType'', rel_type)]))))"

text \<open>The \<^verbatim>\<open>try\<close> statement of lines 192 to 202. The loop appends to the list object
  stored under \<^verbatim>\<open>optional['relatedIdentifiers']\<close> itself: \<open>acc\<close> is that list before,
  the result is the list afterwards and the exception caught, if any.\<close>

definition get_related_identifiers :: "env \<Rightarrow> dict \<Rightarrow> pyval list \<Rightarrow> pyval list \<times> exn option" where
  "get_related_identifiers env pkg acc =
     (case literal_eval env (dict_get pkg ''related_resource'') of
        Inl e \<Rightarrow> (acc, Some e)
      | Inr rel_list \<Rightarrow>
          (case rel_list of
             PList rels \<Rightarrow> append_each related_entry rels acc
           | _ \<Rightarrow> (acc, None)))"

definition related_identifiers_block :: "env \<Rightarrow> dict \<Rightarrow> st \<Rightarrow> st" where
  "related_identifiers_block env pkg s =
     (case get_related_identifiers env pkg (the_list (dict_get (optional s) ''relatedIdentifiers'')) of
        (items, None) \<Rightarrow> set_optional ''relatedIdentifiers'' (PList items) s
      | (items, Some e) \<Rightarrow>
          set_error ''relatedIdentifiers'' e (set_optional ''relatedIdentifiers'' (PList items) s))"

subsection \<open>Sizes and formats (lines 205 to 228)\<close>

definition get_sizes :: "dict \<Rightarrow> exn + pyval" where
  "get_sizes pkg =
     bnd (py_iter (py_or (dict_get_default pkg ''resources'' (PList [])) (PList []))) (\<lambda>resources.
     bnd (map_result (\<lambda>r. bnd (py_get r ''size'') (\<lambda>size. Inr (py_or size (PInt 0)))) resources) (\<lambda>resource_sizes.
     bnd (py_sum resource_sizes) (\<lambda>total.
     bnd (int_truediv_1024 total) (\<lambda>kb.
     Inr (PList [PStr (str_int kb @ '' kb'')])))))"

text \<open>\<^verbatim>\<open>list(set(...))\<close> lists the set in an order Python does not fix; the embedding
  lists it in the order \<open>remdups\<close> leaves.\<close>

definition get_formats :: "dict \<Rightarrow> exn + pyval" where
  "get_formats pkg =
     bnd (py_iter (py_or (dict_get_default pkg ''resources'' (PList [])) (PList []))) (\<lambda>resources.
     bnd (map_result (\<lambda>r. py_get r ''format'') resources) (\<lambda>resource_formats.
     bnd (py_set (filter truthy resource_formats)) (\<lambda>formats.
     Inr (PList formats))))"

subsection \<open>Rights (lines 234 to 255)\<close>

text \<open>\<open>None\<close> as the result: no branch assigned \<^verbatim>\<open>optional['rightsList']\<close>.\<close>

definition get_rights :: "env \<Rightarrow> dict \<Rightarrow> exn + pyval option" where
  "get_rights env pkg =
     (let license_id = dict_get pkg ''license_id'';
          license_id = (if license_id = PNone then dict_get_default pkg ''license'' (PStr []) else license_id)
      in
      if license_id = PStr ''cc-by-4.0-international''
      then Inr (Some (PList [PDict
             [(''rightsUri'', PStr ''https://spdx.org/licenses/CC-BY-4.0.html''),
              (''rightsIdentifier'', PStr ''CC-BY-4.0''),
              (''rightsIdentifierScheme'', PStr ''SPDX'')]]))
      else if license_id \<noteq> PStr [] \<and> license_id \<noteq> PNone
      then
        bnd (get_license_register env) (\<lambda>license_register.
        bnd (license_register license_id) (\<lambda>found.
          case found of
            Some lic \<Rightarrow> Inr (Some (PList [PDict
              [(''rightsUri'', lic_url lic), (''rightsIdentifier'', lic_id lic)]]))
          | None \<Rightarrow> Inr None))
      else Inr (Some (PList [PDict [(''rights'', license_id)]])))"

definition rights_block :: "env \<Rightarrow> dict \<Rightarrow> st \<Rightarrow> st" where
  "rights_block env pkg s =
     (case get_rights env pkg of
        Inl e \<Rightarrow> set_error ''rightsList'' e s
      | Inr None \<Rightarrow> s
      | Inr (Some v) \<Rightarrow> set_optional ''rightsList'' v s)"

subsection \<open>Descriptions (lines 257 to 261)\<close>

definition get_descriptions :: "dict \<Rightarrow> pyval" where
  "get_descriptions pkg =
     PList [PDict
       [(''descriptionType'', PStr ''Other''),
        (''description'', dict_get_default pkg ''notes'' (PStr []))]]"

subsection \<open>Geolocations (lines 263 to 291)\<close>

text \<open>The features the loops run over: \<^verbatim>\<open>pkg_dict["location_data"]["features"]\<close>.\<close>

definition location_features :: "dict \<Rightarrow> exn + pyval list" where
  "location_features pkg =
     bnd (dict_getitem pkg ''location_data'') (\<lambda>location_data.
     bnd (py_getitem location_data ''features'') (\<lambda>features.
     py_iter features))"

definition point_entry :: "env \<Rightarrow> pyval \<Rightarrow> exn + pyval option" where
  "point_entry env feat =
     bnd (py_getitem feat ''geometry'') (\<lambda>geometry.
     bnd (py_getitem geometry ''type'') (\<lambda>geometry_type.
       if geometry_type = PStr ''Point''
       then
         bnd (py_getitem feat ''geometry'') (\<lambda>geometry.
         bnd (py_getitem geometry ''coordinates'') (\<lambda>coords.
         bnd (py_index coords 0) (\<lambda>c0.
         bnd (float_str env c0) (\<lambda>longitude.
         bnd (py_index coords 1) (\<lambda>c1.
         bnd (float_str env c1) (\<lambda>latitude.
         Inr (Some (PDict
           [(''geoLocationPoint'', PDict
              [(''pointLongitude'', PStr longitude),
               (''pointLatitude'', PStr latitude)])]))))))))
       else Inr None))"

definition box_entry :: "env \<Rightarrow> pyval \<Rightarrow> exn + pyval option" where
  "box_entry env feat =
     bnd (py_getitem feat ''geometry'') (\<lambda>geometry.
     bnd (py_getitem geometry ''type'') (\<lambda>geometry_type.
       if geometry_type = PStr ''Polygon''
       then
         bnd (py_getitem feat ''geometry'') (\<lambda>geometry.
         bnd (py_getitem geometry ''coordinates'') (\<lambda>coordinates.
         bnd (py_index coordinates 0) (\<lambda>coord_list.
         bnd (py_index coord_list 0) (\<lambda>p0.
         bnd (py_index p0 0) (\<lambda>p00.
         bnd (float_str env p00) (\<lambda>west.
         bnd (py_index coord_list 2) (\<lambda>p2.
         bnd (py_index p2 0) (\<lambda>p20.
         bnd (float_str env p20) (\<lambda>east.
         bnd (py_index coord_list 0) (\<lambda>p0.
         bnd (py_index p0 1) (\<lambda>p01.
         bnd (float_str env p01) (\<lambda>south.
         bnd (py_index coord_list 1) (\<lambda>p1.
         bnd (py_index p1 1) (\<lambda>p11.
         bnd (float_str env p11) (\<lambda>north.
         Inr (Some (PDict
           [(''geoLocationBox'', PDict
              [(''westBoundLongitude'', PStr west),
               (''eastBoundLongitude'', PStr east),
               (''southBoundLatitude'', PStr south),
               (''northBoundLatitude'', PStr north)])])))))))))))))))))
       else Inr None))"

text \<open>The body of one of the two \<^verbatim>\<open>try\<close> statements, after
  \<^verbatim>\<open>optional['geoLocations'] = []\<close>: the entries appended, and the exception that ended
  the loop, if any.\<close>

definition geo_loop :: "(pyval \<Rightarrow> exn + pyval option) \<Rightarrow> dict \<Rightarrow> pyval list \<times> exn option" where
  "geo_loop entry pkg =
     (case location_features pkg of
        Inl e \<Rightarrow> ([], Some e)
      | Inr features \<Rightarrow> append_each entry features [])"

text \<open>\<^verbatim>\<open>except (ValueError, KeyError, IndexError)\<close>.\<close>

definition geo_caught :: "exn \<Rightarrow> bool" where
  "geo_caught e = (e = ValueError \<or> e = KeyError \<or> e = IndexError)"

text \<open>What the geolocation code computes: \<open>None\<close> when \<^verbatim>\<open>location_choice\<close> is neither
  \<^verbatim>\<open>'point'\<close> nor \<^verbatim>\<open>'area'\<close> (nothing is assigned), else the entries and the exception
  of the branch taken.\<close>

definition get_geolocations :: "env \<Rightarrow> dict \<Rightarrow> (pyval list \<times> exn option) option" where
  "get_geolocations env pkg =
     (let location_choice = dict_get_default pkg ''location_choice'' PNone in
      if location_choice = PNone then None
      else if location_choice = PStr ''point'' then Some (geo_loop (point_entry env) pkg)
      else if location_choice = PStr ''area'' then Some (geo_loop (box_entry env) pkg)
      else None)"

definition geolocations_block :: "env \<Rightarrow> dict \<Rightarrow> st \<Rightarrow> exn + st" where
  "geolocations_block env pkg s =
     (case get_geolocations env pkg of
        None \<Rightarrow> Inr s
      | Some (items, None) \<Rightarrow> Inr (set_optional ''geoLocations'' (PList items) s)
      | Some (items, Some e) \<Rightarrow>
          if geo_caught e
          then Inr (set_error ''geoLocations'' e (set_optional ''geoLocations'' (PList items) s))
          else Inl e)"

subsection \<open>Funding references (lines 293 to 307)\<close>

definition funder_entry :: "pyval \<Rightarrow> exn + pyval option" where
  "funder_entry funder =
     bnd (py_getitem funder ''funder_identifier_type'') (\<lambda>id_type.
       let id_type = (if id_type = PStr ''Wikidata'' \<or> id_type = PStr [] then PStr ''Other'' else id_type) in
     bnd (py_getitem funder ''funder_name'') (\<lambda>funder_name.
     bnd (py_getitem funder ''funder_identifier'') (\<lambda>funder_identifier.
     Inr (Some (PDict
       [(''funderName'', funder_name),
        (''funderIdentifier'', funder_identifier),
        (''funderIdentifierType'', id_type)])))))"

text \<open>The \<^verbatim>\<open>try\<close> statement of lines 295 to 307: the list assigned to
  \<^verbatim>\<open>optional['fundingReferences']\<close> (\<open>None\<close> when \<^verbatim>\<open>literal_eval\<close> raised before the
  assignment of line 297), and the exception caught, if any. The loop appends to the
  assigned list itself.\<close>

definition get_funding_references :: "env \<Rightarrow> dict \<Rightarrow> pyval list option \<times> exn option" where
  "get_funding_references env pkg =
     (case literal_eval env (dict_get pkg ''funder'') of
        Inl e \<Rightarrow> (None, Some e)
      | Inr funder_list \<Rightarrow>
          (case py_iter funder_list of
             Inl e \<Rightarrow> (Some [], Some e)
           | Inr funders \<Rightarrow>
               (case append_each funder_entry funders [] of
                  (items, err) \<Rightarrow> (Some items, err))))"

definition funding_block :: "env \<Rightarrow> dict \<Rightarrow> st \<Rightarrow> st" where
  "funding_block env pkg s =
     (if dict_get_default pkg ''funder'' (PStr []) = PStr [] then s
      else
        (case get_funding_references env pkg of
           (assigned, err) \<Rightarrow>
             (let s = (case assigned of None \<Rightarrow> s | Some items \<Rightarrow> set_optional ''fundingReferences'' (PList items) s)
              in case err of None \<Rightarrow> s | Some e \<Rightarrow> set_error ''fundingReferences'' e s)))"

subsection \<open>The base extraction (lines 28 to 310)\<close>

text \<open>The field code in source order. Two places can raise out of the function: the
  test of line 79, and an exception of the geolocation loops that is not one of the three
  caught.\<close>

definition extract_fields :: "env \<Rightarrow> dict \<Rightarrow> exn + st" where
  "extract_fields env pkg =
     (let s = st_init;
          s = add_required ''creators'' (get_creators env pkg) s;
          s = add_required ''titles'' (Inr (get_titles pkg)) s;
          s = add_required ''publisher'' (config_get env ''ckanext.doi.publisher'') s
      in
      bnd (publication_year_block env pkg s) (\<lambda>s.
      let s = add_required ''resourceType'' (Inr (dict_get pkg ''type'')) s;
          s = try_optional ''subjects'' (get_subjects pkg) s;
          s = try_optional ''contributors'' (get_contributors env pkg) s;
          s = dates_block env pkg s;
          s = try_optional ''language'' (ckan_lang env) s;
          s = try_optional ''alternateIdentifiers'' (get_alternate_identifiers env pkg) s;
          s = related_identifiers_block env pkg s;
          s = try_optional ''sizes'' (get_sizes pkg) s;
          s = try_optional ''formats'' (get_formats pkg) s;
          s = set_optional ''version'' (dict_get pkg ''version'') s;
          s = rights_block env pkg s;
          s = set_optional ''descriptions'' (get_descriptions pkg) s
      in
      bnd (geolocations_block env pkg s) (\<lambda>s.
      Inr (funding_block env pkg s))))"

text \<open>\<^verbatim>\<open>metadata_dict.update(required); metadata_dict.update(optional)\<close> (lines 309, 310).\<close>

definition metadata_of :: "st \<Rightarrow> dict" where
  "metadata_of s = dict_update (dict_update [] (required s)) (optional s)"

subsection \<open>The extension pass (lines 312 to 317)\<close>

fun run_plugins :: "plugin list \<Rightarrow> dict \<Rightarrow> dict \<Rightarrow> errmap \<Rightarrow> exn + (dict \<times> errmap)" where
  "run_plugins [] pkg metadata_dict errs = Inr (metadata_dict, errs)"
| "run_plugins (p # ps) pkg metadata_dict errs =
     bnd (plugin_build_metadata_dict p pkg metadata_dict errs) (\<lambda>(metadata_dict, errs).
     run_plugins ps pkg metadata_dict errs)"

subsection \<open>Required-field enforcement and reporting (lines 319 to 344)\<close>

text \<open>A log record: \<open>LogException msg\<close> and \<open>LogDebug msg\<close> are \<^verbatim>\<open>log.exception(msg)\<close>
  and \<^verbatim>\<open>log.debug(msg)\<close>; \<open>LogExceptionCause k e\<close> and \<open>LogDebugCause k e\<close> are the
  same calls with the message \<^verbatim>\<open>f'{k}: {e}'\<close>.\<close>

datatype log_entry =
    LogException string
  | LogExceptionCause string exn
  | LogDebug string
  | LogDebugCause string exn

text \<open>Lines 319 to 321: \<^verbatim>\<open>for k in required: if metadata_dict.get(k) is None and
  errors.get(k) is None: errors[k] = DOIMetadataException(...)\<close>.\<close>

fun add_missing_required :: "string list \<Rightarrow> dict \<Rightarrow> errmap \<Rightarrow> errmap" where
  "add_missing_required [] metadata_dict errs = errs"
| "add_missing_required (k # ks) metadata_dict errs =
     add_missing_required ks metadata_dict
       (if dict_get metadata_dict k = PNone \<and> map_of errs k = None
        then dict_set k (DOIMetadataException ''Required field cannot be None'') errs
        else errs)"

definition required_error_msg :: "errmap \<Rightarrow> string" where
  "required_error_msg required_errors =
     ''Could not extract metadata for the following required keys: '' @ join '', '' (map fst required_errors)"

definition optional_error_msg :: "errmap \<Rightarrow> string" where
  "optional_error_msg optional_errors =
     ''Could not extract metadata for the following optional keys: '' @ join '', '' (map fst optional_errors)"

text \<open>Lines 319 to 344, for the keys of the local \<^verbatim>\<open>required\<close> and \<^verbatim>\<open>optional\<close>
  dictionaries. The second test (line 335) is the source's: it reads
  \<^verbatim>\<open>required_errors\<close> again.\<close>

definition enforce_required :: "string list \<Rightarrow> string list \<Rightarrow> dict \<Rightarrow> errmap \<Rightarrow> log_entry list \<times> (exn + dict)" where
  "enforce_required required_keys optional_keys metadata_dict errs =
     (let errs = add_missing_required required_keys metadata_dict errs;
          required_errors = filter (\<lambda>ke. fst ke \<in> set required_keys) errs
      in
      if 0 < length required_errors
      then
        (let error_msg = required_error_msg required_errors in
         (LogException error_msg # map (\<lambda>ke. LogExceptionCause (fst ke) (snd ke)) required_errors,
          Inl (DOIMetadataException error_msg)))
      else
        (let optional_errors = filter (\<lambda>ke. fst ke \<in> set optional_keys) errs in
         if 0 < length required_errors
         then
           (let error_msg = optional_error_msg optional_errors in
            (LogDebug error_msg # map (\<lambda>ke. LogDebugCause (fst ke) (snd ke)) optional_errors,
             Inr metadata_dict))
         else ([], Inr metadata_dict)))"

subsection \<open>\<^verbatim>\<open>build_metadata_dict\<close>\<close>

text \<open>The result is the log the function wrote and either the exception it raised or
  the dictionary it returned.\<close>

definition build_metadata_dict :: "env \<Rightarrow> dict \<Rightarrow> log_entry list \<times> (exn + dict)" where
  "build_metadata_dict env pkg =
     (case extract_fields env pkg of
        Inl e \<Rightarrow> ([], Inl e)
      | Inr s \<Rightarrow>
          (case run_plugins (plugins env) pkg (metadata_of s) (errors s) of
             Inl e \<Rightarrow> ([], Inl e)
           | Inr (metadata_dict, errs) \<Rightarrow>
               enforce_required (map fst (required s)) (map fst (optional s)) metadata_dict errs))"

section \<open>The schema projector \<^verbatim>\<open>build_xml_dict\<close>\<close>

text \<open>Lines 391 to 394: \<^verbatim>\<open>v is not None and len(v) > 0\<close>, and \<open>False\<close> when that
  raises.\<close>

definition has_value :: "pyval \<Rightarrow> bool" where
  "has_value v =
     (if v = PNone then False
      else (case py_len v of Inl e \<Rightarrow> False | Inr n \<Rightarrow> 0 < n))"

text \<open>Lines 399 to 402: the copy of one entry of \<^verbatim>\<open>dates\<close> with its date as a
  string.\<close>

definition stringify_date :: "env \<Rightarrow> pyval \<Rightarrow> exn + pyval" where
  "stringify_date env date_entry =
     (case date_entry of
        PDict d \<Rightarrow>
          (let date_entry_copy = dict_update [] d in
           bnd (dict_getitem date_entry_copy ''date'') (\<lambda>date.
           Inr (PDict (dict_set ''date'' (PStr (py_str env date)) date_entry_copy))))
      | _ \<Rightarrow> Inl AttributeError)"

definition xml_optional_keys :: "string list" where
  "xml_optional_keys =
     [''subjects'', ''contributors'', ''dates'', ''language'', ''alternateIdentifiers'',
      ''relatedIdentifiers'', ''sizes'', ''formats'', ''version'', ''rightsList'',
      ''descriptions'', ''geoLocations'', ''fundingReferences'']"

text \<open>The loop of lines 389 to 405 over the optional keys.\<close>

fun xml_optional_loop :: "env \<Rightarrow> dict \<Rightarrow> string list \<Rightarrow> dict \<Rightarrow> exn + dict" where
  "xml_optional_loop env metadata_dict [] xml_dict = Inr xml_dict"
| "xml_optional_loop env metadata_dict (k # ks) xml_dict =
     (let v = dict_get metadata_dict k in
      if \<not> has_value v then xml_optional_loop env metadata_dict ks xml_dict
      else if k = ''dates''
      then
        bnd (py_iter v) (\<lambda>date_entries.
        bnd (map_result (stringify_date env) date_entries) (\<lambda>item.
        xml_optional_loop env metadata_dict ks (dict_set k (PList item) xml_dict)))
      else xml_optional_loop env metadata_dict ks (dict_set k v xml_dict))"

fun run_xml_plugins :: "plugin list \<Rightarrow> dict \<Rightarrow> dict \<Rightarrow> exn + dict" where
  "run_xml_plugins [] metadata_dict xml_dict = Inr xml_dict"
| "run_xml_plugins (p # ps) metadata_dict xml_dict =
     bnd (plugin_build_xml_dict p metadata_dict xml_dict) (\<lambda>xml_dict.
     run_xml_plugins ps metadata_dict xml_dict)"

definition xml_required :: "env \<Rightarrow> dict \<Rightarrow> dict" where
  "xml_required env metadata_dict =
     (let xml_dict =
        [(''creators'', PList []),
         (''titles'', dict_get_default metadata_dict ''titles'' (PList [])),
         (''publisher'', dict_get metadata_dict ''publisher''),
         (''publicationYear'', PStr (py_str env (dict_get metadata_dict ''publicationYear''))),
         (''types'', PDict
            [(''resourceType'', dict_get metadata_dict ''resourceType''),
             (''resourceTypeGeneral'', PStr ''Dataset'')]),
         (''schemaVersion'', PStr ''http://datacite.org/schema/kernel-4'')]
      in dict_set ''creators'' (dict_get_default metadata_dict ''creators'' (PList [])) xml_dict)"

definition build_xml_dict :: "env \<Rightarrow> dict \<Rightarrow> exn + dict" where
  "build_xml_dict env metadata_dict =
     bnd (xml_optional_loop env metadata_dict xml_optional_keys (xml_required env metadata_dict)) (\<lambda>xml_dict.
     run_xml_plugins (plugins env) metadata_dict xml_dict)"

section \<open>Auxiliary definitions for the properties\<close>

subsection \<open>The extraction without its two exits\<close>

text \<open>The value line 79 to 83 choose for \<^verbatim>\<open>publicationYear\<close>, the exception of the
  test of line 79, the exception of the geolocation loops that the \<^verbatim>\<open>except\<close> clause
  lets through, and what the geolocation code stores when it catches.\<close>

definition publication_year :: "env \<Rightarrow> dict \<Rightarrow> pyval" where
  "publication_year env pkg =
     (case dict_get pkg ''doi_date_published'' of
        PStr d \<Rightarrow> (if isdecimal (take 4 d) then PStr (take 4 d) else PInt (now_year env))
      | _ \<Rightarrow> PInt (now_year env))"

definition year_test_raises :: "dict \<Rightarrow> exn option" where
  "year_test_raises pkg =
     (let doi_date_published = dict_get pkg ''doi_date_published'' in
      if doi_date_published = PNone then None
      else raised (bnd (py_slice4 doi_date_published) py_isdecimal))"

definition geo_escapes :: "env \<Rightarrow> dict \<Rightarrow> exn option" where
  "geo_escapes env pkg =
     (case get_geolocations env pkg of
        Some (items, Some e) \<Rightarrow> (if geo_caught e then None else Some e)
      | _ \<Rightarrow> None)"

definition geo_store :: "(pyval list \<times> exn option) option \<Rightarrow> st \<Rightarrow> st" where
  "geo_store r s =
     (case r of
        None \<Rightarrow> s
      | Some (items, None) \<Rightarrow> set_optional ''geoLocations'' (PList items) s
      | Some (items, Some e) \<Rightarrow> set_error ''geoLocations'' e (set_optional ''geoLocations'' (PList items) s))"

text \<open>The local dictionaries at line 310 when neither exit is taken: the field code of
  \<open>extract_fields\<close> in source order, innermost first.\<close>

definition extracted :: "env \<Rightarrow> dict \<Rightarrow> st" where
  "extracted env pkg =
     funding_block env pkg
       (geo_store (get_geolocations env pkg)
         (set_optional ''descriptions'' (get_descriptions pkg)
           (rights_block env pkg
             (set_optional ''version'' (dict_get pkg ''version'')
               (try_optional ''formats'' (get_formats pkg)
                 (try_optional ''sizes'' (get_sizes pkg)
                   (related_identifiers_block env pkg
                     (try_optional ''alternateIdentifiers'' (get_alternate_identifiers env pkg)
                       (try_optional ''language'' (ckan_lang env)
                         (dates_block env pkg
                           (try_optional ''contributors'' (get_contributors env pkg)
                             (try_optional ''subjects'' (get_subjects pkg)
                               (add_required ''resourceType'' (Inr (dict_get pkg ''type''))
                                 (add_required ''publicationYear'' (Inr (publication_year env pkg))
                                   (add_required ''publisher'' (config_get env ''ckanext.doi.publisher'')
                                     (add_required ''titles'' (Inr (get_titles pkg))
                                       (add_required ''creators'' (get_creators env pkg) st_init)))))))))))))))))"

text \<open>The keys of the two local dictionaries never change.\<close>

definition keys_ok :: "st \<Rightarrow> bool" where
  "keys_ok s =
     (map fst (required s) = map fst required_init \<and> map fst (optional s) = map fst optional_init)"

definition required_keys :: "string list" where
  "required_keys = [''creators'', ''titles'', ''publisher'', ''publicationYear'', ''resourceType'']"

subsection \<open>A sample environment and sample packages\<close>

text \<open>The sample \<^verbatim>\<open>literal_eval\<close> and \<^verbatim>\<open>date_or_none\<close> are tables: they give what the
  Python functions give on the arguments the sample packages pass, and raise
  \<^verbatim>\<open>ValueError\<close> elsewhere (as both do on \<^verbatim>\<open>None\<close> and on text they cannot parse).\<close>

definition sample_related :: string where
  "sample_related =
     ''[{'related_resource_url': 'https://example.org/a', 'relation_type': 'Cites'}, {'related_resource_url': 'https://example.org/b'}]''"

definition sample_funder :: string where
  "sample_funder =
     ''[{'funder_identifier_type': 'Wikidata', 'funder_name': 'ARC', 'funder_identifier': 'Q781401'}, {'funder_identifier_type': 'ROR'}]''"

definition sample_literal_eval :: "pyval \<Rightarrow> exn + pyval" where
  "sample_literal_eval v =
     (if v = PStr ''[]'' then Inr (PList [])
      else if v = PStr sample_related
      then Inr (PList
        [PDict [(''related_resource_url'', PStr ''https://example.org/a''), (''relation_type'', PStr ''Cites'')],
         PDict [(''related_resource_url'', PStr ''https://example.org/b'')]])
      else if v = PStr sample_funder
      then Inr (PList
        [PDict [(''funder_identifier_type'', PStr ''Wikidata''), (''funder_name'', PStr ''ARC''),
                (''funder_identifier'', PStr ''Q781401'')],
         PDict [(''funder_identifier_type'', PStr ''ROR'')]])
      else Inl ValueError)"

definition sample_date_or_none :: "pyval \<Rightarrow> exn + pyval" where
  "sample_date_or_none v =
     (case v of
        PObj s \<Rightarrow> Inr (PObj s)
      | PStr s \<Rightarrow>
          (if s = ''2021-05-10'' then Inr (PObj ''2021-05-10 00:00:00'')
           else if s = ''2020-01-02T03:04:05'' then Inr (PObj ''2020-01-02 03:04:05'')
           else Inl ValueError)
      | _ \<Rightarrow> Inr PNone)"

definition sample_register :: "pyval \<Rightarrow> exn + license option" where
  "sample_register license_id =
     (if license_id = PStr ''cc-zero''
      then Inr (Some \<lparr>lic_url = PStr ''http://www.opendefinition.org/licenses/cc-zero'', lic_id = PStr ''cc-zero''\<rparr>)
      else if hashable license_id then Inr None
      else Inl TypeError)"

definition sample_float_str :: "pyval \<Rightarrow> exn + string" where
  "sample_float_str v =
     (case v of
        PInt n \<Rightarrow> Inr (str_int n @ ''.0'')
      | PStr s \<Rightarrow> Inl ValueError
      | _ \<Rightarrow> Inl TypeError)"

definition sample_env :: env where
  "sample_env =
     \<lparr>literal_eval = sample_literal_eval,
      config_get = (\<lambda>k. if k = ''ckanext.doi.publisher'' then Inr (PStr ''AuScope'') else Inr PNone),
      now_year = 2026,
      date_or_none = sample_date_or_none,
      ckan_lang = Inr (PStr ''en''),
      get_site_url = Inr (PStr ''https://data.example.org''),
      get_license_register = Inr sample_register,
      float_str = sample_float_str,
      str_container = (\<lambda>v. ''[...]''),
      plugins = []\<rparr>"

text \<open>A package whose required fields all resolve; it has no \<^verbatim>\<open>related_resource\<close>, so
  \<^verbatim>\<open>literal_eval(None)\<close> fails for the optional \<^verbatim>\<open>relatedIdentifiers\<close>. \<open>pkg_dated v\<close>
  is the same package with \<^verbatim>\<open>doi_date_published\<close> set to \<open>v\<close>.\<close>

definition pkg_no_date :: dict where
  "pkg_no_date =
     [(''id'', PStr ''abc''),
      (''author'', PStr ''[]''),
      (''title'', PStr ''Rock samples''),
      (''type'', PStr ''dataset''),
      (''resources'',
         PList [PDict [(''size'', PInt 1024)], PDict [(''size'', PInt 2048)], PDict [(''size'', PNone)]])]"

definition pkg_dated :: "pyval \<Rightarrow> dict" where
  "pkg_dated v = pkg_no_date @ [(''doi_date_published'', v)]"

definition pkg_ok :: dict where
  "pkg_ok = pkg_dated (PStr ''2021-05-10'')"

subsection \<open>Sizes of resources\<close>

text \<open>A resource whose \<^verbatim>\<open>size\<close> is absent, \<^verbatim>\<open>None\<close> or an integer, the size it counts
  for, and the total of a list of resources.\<close>

definition size_or_zero :: "pyval \<Rightarrow> int" where
  "size_or_zero r =
     (case r of
        PDict d \<Rightarrow> (case dict_get d ''size'' of PInt n \<Rightarrow> n | _ \<Rightarrow> 0)
      | _ \<Rightarrow> 0)"

definition sized_resource :: "pyval \<Rightarrow> bool" where
  "sized_resource r =
     (case r of
        PDict d \<Rightarrow> (case dict_get d ''size'' of PInt n \<Rightarrow> True | PNone \<Rightarrow> True | _ \<Rightarrow> False)
      | _ \<Rightarrow> False)"

definition total_size :: "pyval list \<Rightarrow> int" where
  "total_size rs = sum_list (map size_or_zero rs)"

text \<open>A package with one resource whose size is a string.\<close>

definition pkg_string_size :: dict where
  "pkg_string_size =
     [(''id'', PStr ''abc''),
      (''author'', PStr ''[]''),
      (''title'', PStr ''Rock samples''),
      (''type'', PStr ''dataset''),
      (''resources'', PList [PDict [(''size'', PStr ''2048'')]])]"

subsection \<open>The license identifier\<close>

text \<open>The identifier the rights code tests (\<^verbatim>\<open>license_id\<close>, falling back to
  \<^verbatim>\<open>license\<close> with default \<^verbatim>\<open>''\<close>), and the lookup
  \<^verbatim>\<open>Package.get_license_register().get(license_id)\<close>.\<close>

definition license_identifier :: "dict \<Rightarrow> pyval" where
  "license_identifier pkg =
     (if dict_get pkg ''license_id'' = PNone
      then dict_get_default pkg ''license'' (PStr [])
      else dict_get pkg ''license_id'')"

definition registry_lookup :: "env \<Rightarrow> pyval \<Rightarrow> exn + license option" where
  "registry_lookup env license_id =
     bnd (get_license_register env) (\<lambda>license_register. license_register license_id)"

text \<open>The sample package with a \<^verbatim>\<open>license_id\<close>.\<close>

definition pkg_licensed :: "pyval \<Rightarrow> dict" where
  "pkg_licensed v = pkg_no_date @ [(''license_id'', v)]"

subsection \<open>One entry of the dates\<close>

text \<open>What one of the three \<^verbatim>\<open>try\<close> statements of lines 145 to 172 appends: the entry
  when \<^verbatim>\<open>date_or_none\<close> returns, nothing when it raises.\<close>

definition date_part :: "env \<Rightarrow> string \<Rightarrow> pyval \<Rightarrow> pyval list" where
  "date_part env date_type v =
     (case date_or_none env v of Inr d \<Rightarrow> [dates_item date_type d] | Inl e \<Rightarrow> [])"

text \<open>A package whose creation date and publication date do not parse.\<close>

definition pkg_bad_created :: dict where
  "pkg_bad_created =
     [(''id'', PStr ''abc''),
      (''author'', PStr ''[]''),
      (''title'', PStr ''Rock samples''),
      (''type'', PStr ''dataset''),
      (''metadata_created'', PStr ''yesterday''),
      (''metadata_modified'', PStr ''2020-01-02T03:04:05''),
      (''doi_date_published'', PStr ''abcd-05-10'')]"

subsection \<open>States that differ in the dates only\<close>

definition same_but_dates :: "st \<Rightarrow> st \<Rightarrow> bool" where
  "same_but_dates s s' =
     (required s = required s' \<and> errors s = errors s' \<and>
      (\<forall>k. k \<noteq> ''dates'' \<longrightarrow> map_of (optional s) k = map_of (optional s') k))"

subsection \<open>Failed required keys\<close>

text \<open>A required key fails, after the extension pass, when it has an entry in the error
  map or its value in the metadata dictionary is \<^verbatim>\<open>None\<close> (or absent, which
  \<^verbatim>\<open>metadata_dict.get\<close> does not tell apart).\<close>

definition required_failed :: "dict \<Rightarrow> errmap \<Rightarrow> string \<Rightarrow> bool" where
  "required_failed metadata_dict errs k = (dict_has errs k \<or> dict_get metadata_dict k = PNone)"

text \<open>The empty package.\<close>

definition pkg_empty :: dict where
  "pkg_empty = []"

subsection \<open>What the field code catches\<close>

text \<open>The exception the code of a field catches and stores under the field's key, if any.
  The code of \<^verbatim>\<open>titles\<close>, \<^verbatim>\<open>publicationYear\<close>, \<^verbatim>\<open>resourceType\<close>, \<^verbatim>\<open>version\<close> and
  \<^verbatim>\<open>descriptions\<close> only calls \<^verbatim>\<open>pkg_dict.get\<close> and cannot raise; the failures of
  \<^verbatim>\<open>dates\<close> go to \<^verbatim>\<open>date_errors\<close>.\<close>

definition field_failure :: "env \<Rightarrow> dict \<Rightarrow> string \<Rightarrow> exn option" where
  "field_failure env pkg k =
     (if k = ''creators'' then raised (get_creators env pkg)
      else if k = ''publisher'' then raised (config_get env ''ckanext.doi.publisher'')
      else if k = ''subjects'' then raised (get_subjects pkg)
      else if k = ''contributors'' then raised (get_contributors env pkg)
      else if k = ''language'' then raised (ckan_lang env)
      else if k = ''alternateIdentifiers'' then raised (get_alternate_identifiers env pkg)
      else if k = ''relatedIdentifiers'' then snd (get_related_identifiers env pkg [])
      else if k = ''sizes'' then raised (get_sizes pkg)
      else if k = ''formats'' then raised (get_formats pkg)
      else if k = ''rightsList'' then raised (get_rights env pkg)
      else if k = ''geoLocations''
      then (case get_geolocations env pkg of Some (items, err) \<Rightarrow> err | None \<Rightarrow> None)
      else if k = ''fundingReferences''
      then (if dict_get_default pkg ''funder'' (PStr []) = PStr [] then None
            else snd (get_funding_references env pkg))
      else None)"



subsection \<open>Well-formed dates\<close>

text \<open>An entry of \<^verbatim>\<open>dates\<close> the projector can copy (a dictionary with a \<^verbatim>\<open>date\<close>), and
  a metadata dictionary whose \<^verbatim>\<open>dates\<close>, if it has a value, is a list of such entries.\<close>

definition dated_entry :: "pyval \<Rightarrow> bool" where
  "dated_entry d = (case d of PDict kv \<Rightarrow> dict_has kv ''date'' | _ \<Rightarrow> False)"

definition dates_ok :: "dict \<Rightarrow> bool" where
  "dates_ok md =
     (if has_value (dict_get md ''dates'')
      then (case dict_get md ''dates'' of PList ds \<Rightarrow> list_all dated_entry ds | _ \<Rightarrow> False)
      else True)"

text \<open>A metadata dictionary with optional values of every kind (empty list, empty string,
  \<^verbatim>\<open>None\<close>, a value with no length, values with a length, absent keys), and its
  projection.\<close>

definition sample_md :: dict where
  "sample_md =
     [(''creators'', PList []),
      (''titles'', PList [PDict [(''title'', PStr ''Rock samples'')]]),
      (''publisher'', PStr ''AuScope''),
      (''publicationYear'', PInt 2026),
      (''resourceType'', PStr ''dataset''),
      (''subjects'', PList []),
      (''dates'', PList [PDict [(''dateType'', PStr ''Created''), (''date'', PObj ''2020-01-02 03:04:05'')]]),
      (''language'', PStr ''en''),
      (''relatedIdentifiers'', PInt 7),
      (''sizes'', PList [PStr ''3 kb'']),
      (''version'', PStr []),
      (''rightsList'', PNone)]"

definition sample_xml :: dict where
  "sample_xml =
     [(''creators'', PList []),
      (''titles'', PList [PDict [(''title'', PStr ''Rock samples'')]]),
      (''publisher'', PStr ''AuScope''),
      (''publicationYear'', PStr ''2026''),
      (''types'', PDict [(''resourceType'', PStr ''dataset''), (''resourceTypeGeneral'', PStr ''Dataset'')]),
      (''schemaVersion'', PStr ''http://datacite.org/schema/kernel-4''),
      (''dates'', PList [PDict [(''dateType'', PStr ''Created''), (''date'', PStr ''2020-01-02 03:04:05'')]]),
      (''language'', PStr ''en''),
      (''sizes'', PList [PStr ''3 kb''])]"

text \<open>The sample package with a \<^verbatim>\<open>related_resource\<close> and a \<^verbatim>\<open>funder\<close> list whose
  second entries lack a key.\<close>

definition pkg_partial :: dict where
  "pkg_partial =
     pkg_no_date @ [(''related_resource'', PStr sample_related), (''funder'', PStr sample_funder)]"

section \<open>Basic lemmas\<close>

subsection \<open>Dictionaries\<close>

lemma map_of_dict_set [simp]:
  "map_of (dict_set k v d) k' = (if k' = k then Some v else map_of d k')"
  by (simp add: dict_set_def update_conv')

lemma keys_dict_set:
  "map fst (dict_set k v d) = (if k \<in> set (map fst d) then map fst d else map fst d @ [k])"
  by (simp add: dict_set_def update_keys)

lemma keys_dict_set_same:
  "map fst d = ks \<Longrightarrow> k \<in> set ks \<Longrightarrow> map fst (dict_set k v d) = ks"
  by (auto simp: keys_dict_set)

lemma map_of_foldl_dict_set:
  "distinct (map fst d2) \<Longrightarrow>
   map_of (foldl (\<lambda>acc kv. dict_set (fst kv) (snd kv) acc) d d2) k =
     (case map_of d2 k of Some v \<Rightarrow> Some v | None \<Rightarrow> map_of d k)"
proof (induction d2 arbitrary: d)
  case Nil
  then show ?case by simp
next
  case (Cons kv d2)
  have "map_of d2 (fst kv) = None"
    using Cons.prems by (simp add: map_of_eq_None_iff)
  then show ?case
    using Cons by (cases kv) (auto split: option.splits)
qed

lemma map_of_dict_update:
  "distinct (map fst d2) \<Longrightarrow>
   map_of (dict_update d d2) k = (case map_of d2 k of Some v \<Rightarrow> Some v | None \<Rightarrow> map_of d k)"
  by (simp add: dict_update_def map_of_foldl_dict_set)

lemma dict_has_map_of: "dict_has d k = (map_of d k \<noteq> None)"
  by (simp add: dict_has_def map_of_eq_None_iff)

subsection \<open>Float division of small integers\<close>

lemma round53_small: "0 \<le> a \<Longrightarrow> a < 2 ^ 53 \<Longrightarrow> round53 a = a"
  by (simp add: round53_def bitlen_le_iff_power)

lemma int_truediv_1024_small:
  assumes "0 \<le> n" "n < 2 ^ 53"
  shows "int_truediv_1024 n = Inr (n div 1024)"
proof -
  have r: "round53 \<bar>n\<bar> = n"
    using assms by (simp add: round53_small)
  have "n < 2 ^ 1034"
    using assms(2) by (rule less_trans) simp
  moreover have "sgn n * (n div 1024) = n div 1024"
    using assms(1) by (cases "n = 0") simp_all
  ultimately show ?thesis
    by (simp add: int_truediv_1024_def r)
qed

subsection \<open>What each block of the extractor touches\<close>

lemma set_required_sel [simp]:
  "required (set_required k v s) = dict_set k v (required s)"
  "optional (set_required k v s) = optional s"
  "errors (set_required k v s) = errors s"
  "date_errors (set_required k v s) = date_errors s"
  by (simp_all add: set_required_def)

lemma set_optional_sel [simp]:
  "required (set_optional k v s) = required s"
  "optional (set_optional k v s) = dict_set k v (optional s)"
  "errors (set_optional k v s) = errors s"
  "date_errors (set_optional k v s) = date_errors s"
  by (simp_all add: set_optional_def)

lemma set_error_sel [simp]:
  "required (set_error k e s) = required s"
  "optional (set_error k e s) = optional s"
  "errors (set_error k e s) = dict_set k e (errors s)"
  "date_errors (set_error k e s) = date_errors s"
  by (simp_all add: set_error_def)

lemma set_date_error_sel [simp]:
  "required (set_date_error k e s) = required s"
  "optional (set_date_error k e s) = optional s"
  "errors (set_date_error k e s) = errors s"
  "date_errors (set_date_error k e s) = dict_set k e (date_errors s)"
  by (simp_all add: set_date_error_def)

lemma add_required_sel [simp]:
  "optional (add_required k r s) = optional s"
  "date_errors (add_required k r s) = date_errors s"
  "map_of (required (add_required k r s)) k' =
     (if k' = k then (case r of Inr v \<Rightarrow> Some v | Inl e \<Rightarrow> map_of (required s) k') else map_of (required s) k')"
  "map_of (errors (add_required k r s)) k' =
     (if k' = k then (case raised r of Some e \<Rightarrow> Some e | None \<Rightarrow> map_of (errors s) k') else map_of (errors s) k')"
  by (simp_all add: add_required_def split: sum.splits)

lemma try_optional_sel [simp]:
  "required (try_optional k r s) = required s"
  "date_errors (try_optional k r s) = date_errors s"
  "map_of (optional (try_optional k r s)) k' =
     (if k' = k then (case r of Inr v \<Rightarrow> Some v | Inl e \<Rightarrow> map_of (optional s) k') else map_of (optional s) k')"
  "map_of (errors (try_optional k r s)) k' =
     (if k' = k then (case raised r of Some e \<Rightarrow> Some e | None \<Rightarrow> map_of (errors s) k') else map_of (errors s) k')"
  by (simp_all add: try_optional_def split: sum.splits)

lemma try_date_sel [simp]:
  "required (try_date env t ek v s) = required s"
  "errors (try_date env t ek v s) = errors s"
  "k' \<noteq> ''dates'' \<Longrightarrow> map_of (optional (try_date env t ek v s)) k' = map_of (optional s) k'"
  by (simp_all add: try_date_def split: sum.splits)

lemma dates_block_sel [simp]:
  "required (dates_block env pkg s) = required s"
  "errors (dates_block env pkg s) = errors s"
  "k' \<noteq> ''dates'' \<Longrightarrow> map_of (optional (dates_block env pkg s)) k' = map_of (optional s) k'"
  by (simp_all add: dates_block_def Let_def)

lemma related_identifiers_block_sel [simp]:
  "required (related_identifiers_block env pkg s) = required s"
  "date_errors (related_identifiers_block env pkg s) = date_errors s"
  "k' \<noteq> ''relatedIdentifiers'' \<Longrightarrow>
     map_of (optional (related_identifiers_block env pkg s)) k' = map_of (optional s) k'"
  "map_of (errors (related_identifiers_block env pkg s)) k' =
     (if k' = ''relatedIdentifiers''
      then (case snd (get_related_identifiers env pkg (the_list (dict_get (optional s) ''relatedIdentifiers''))) of
              Some e \<Rightarrow> Some e | None \<Rightarrow> map_of (errors s) k')
      else map_of (errors s) k')"
  by (simp_all add: related_identifiers_block_def split: prod.splits option.splits)

lemma rights_block_sel [simp]:
  "required (rights_block env pkg s) = required s"
  "date_errors (rights_block env pkg s) = date_errors s"
  "k' \<noteq> ''rightsList'' \<Longrightarrow> map_of (optional (rights_block env pkg s)) k' = map_of (optional s) k'"
  "map_of (errors (rights_block env pkg s)) k' =
     (if k' = ''rightsList''
      then (case raised (get_rights env pkg) of Some e \<Rightarrow> Some e | None \<Rightarrow> map_of (errors s) k')
      else map_of (errors s) k')"
  by (simp_all add: rights_block_def split: sum.splits option.splits)

lemma geo_store_sel [simp]:
  "required (geo_store r s) = required s"
  "date_errors (geo_store r s) = date_errors s"
  "k' \<noteq> ''geoLocations'' \<Longrightarrow> map_of (optional (geo_store r s)) k' = map_of (optional s) k'"
  "map_of (errors (geo_store r s)) k' =
     (if k' = ''geoLocations''
      then (case r of Some (items, Some e) \<Rightarrow> Some e | _ \<Rightarrow> map_of (errors s) k')
      else map_of (errors s) k')"
  by (simp_all add: geo_store_def split: prod.splits option.splits)

lemma funding_block_sel [simp]:
  "required (funding_block env pkg s) = required s"
  "date_errors (funding_block env pkg s) = date_errors s"
  "k' \<noteq> ''fundingReferences'' \<Longrightarrow> map_of (optional (funding_block env pkg s)) k' = map_of (optional s) k'"
  "map_of (errors (funding_block env pkg s)) k' =
     (if k' = ''fundingReferences'' \<and> dict_get_default pkg ''funder'' (PStr []) \<noteq> PStr []
      then (case snd (get_funding_references env pkg) of Some e \<Rightarrow> Some e | None \<Rightarrow> map_of (errors s) k')
      else map_of (errors s) k')"
  by (simp_all add: funding_block_def Let_def split: prod.splits option.splits)

subsection \<open>The keys of the local dictionaries\<close>

lemma optional_init_has [simp]:
  "dict_has optional_init ''subjects''"
  "dict_has optional_init ''contributors''"
  "dict_has optional_init ''dates''"
  "dict_has optional_init ''language''"
  "dict_has optional_init ''alternateIdentifiers''"
  "dict_has optional_init ''relatedIdentifiers''"
  "dict_has optional_init ''sizes''"
  "dict_has optional_init ''formats''"
  "dict_has optional_init ''version''"
  "dict_has optional_init ''rightsList''"
  "dict_has optional_init ''descriptions''"
  "dict_has optional_init ''geoLocations''"
  "dict_has optional_init ''fundingReferences''"
  by (simp_all add: dict_has_def optional_init_def)

lemma required_init_has [simp]:
  "dict_has required_init ''creators''"
  "dict_has required_init ''titles''"
  "dict_has required_init ''publisher''"
  "dict_has required_init ''publicationYear''"
  "dict_has required_init ''resourceType''"
  by (simp_all add: dict_has_def required_init_def)

lemma keys_ok_init: "keys_ok st_init"
  by (simp add: keys_ok_def st_init_def)

lemma keys_ok_set_optional:
  "keys_ok s \<Longrightarrow> dict_has optional_init k \<Longrightarrow> keys_ok (set_optional k v s)"
  by (simp add: keys_ok_def keys_dict_set_same dict_has_def)

lemma keys_ok_set_error: "keys_ok s \<Longrightarrow> keys_ok (set_error k e s)"
  by (simp add: keys_ok_def)

lemma keys_ok_set_date_error: "keys_ok s \<Longrightarrow> keys_ok (set_date_error k e s)"
  by (simp add: keys_ok_def)

lemma keys_ok_add_required:
  "keys_ok s \<Longrightarrow> dict_has required_init k \<Longrightarrow> keys_ok (add_required k r s)"
  by (simp add: keys_ok_def add_required_def keys_dict_set_same dict_has_def split: sum.splits)

lemma keys_ok_try_optional:
  "keys_ok s \<Longrightarrow> dict_has optional_init k \<Longrightarrow> keys_ok (try_optional k r s)"
  by (simp add: try_optional_def keys_ok_set_optional keys_ok_set_error split: sum.splits)

lemma keys_ok_try_date: "keys_ok s \<Longrightarrow> keys_ok (try_date env t ek v s)"
  by (simp add: try_date_def keys_ok_set_optional keys_ok_set_date_error split: sum.splits)

lemma keys_ok_dates_block: "keys_ok s \<Longrightarrow> keys_ok (dates_block env pkg s)"
  by (simp add: dates_block_def Let_def keys_ok_try_date)

lemma keys_ok_related: "keys_ok s \<Longrightarrow> keys_ok (related_identifiers_block env pkg s)"
  by (simp add: related_identifiers_block_def keys_ok_set_optional keys_ok_set_error
      split: prod.splits option.splits)

lemma keys_ok_rights: "keys_ok s \<Longrightarrow> keys_ok (rights_block env pkg s)"
  by (simp add: rights_block_def keys_ok_set_optional keys_ok_set_error
      split: sum.splits option.splits)

lemma keys_ok_geo_store: "keys_ok s \<Longrightarrow> keys_ok (geo_store r s)"
  by (simp add: geo_store_def keys_ok_set_optional keys_ok_set_error
      split: prod.splits option.splits)

lemma keys_ok_funding: "keys_ok s \<Longrightarrow> keys_ok (funding_block env pkg s)"
  by (simp add: funding_block_def Let_def keys_ok_set_optional keys_ok_set_error
      split: prod.splits option.splits)

lemmas keys_ok_intros =
  keys_ok_init keys_ok_set_optional keys_ok_add_required keys_ok_try_optional keys_ok_dates_block
  keys_ok_related keys_ok_rights keys_ok_geo_store keys_ok_funding

lemma keys_ok_extracted: "keys_ok (extracted env pkg)"
  unfolding extracted_def by (intro keys_ok_intros) simp_all

lemma required_keys_extracted: "map fst (required (extracted env pkg)) = required_keys"
  using keys_ok_extracted [of env pkg] by (simp add: keys_ok_def required_init_def required_keys_def)

lemma optional_keys_extracted: "map fst (optional (extracted env pkg)) = xml_optional_keys"
  using keys_ok_extracted [of env pkg] by (simp add: keys_ok_def optional_init_def xml_optional_keys_def)

lemma metadata_of_lookup:
  "keys_ok s \<Longrightarrow>
   map_of (metadata_of s) k = (case map_of (optional s) k of Some v \<Rightarrow> Some v | None \<Rightarrow> map_of (required s) k)"
proof -
  assume ok: "keys_ok s"
  have d1: "distinct (map fst (required s))" and d2: "distinct (map fst (optional s))"
    using ok by (simp_all add: keys_ok_def required_init_def optional_init_def)
  show ?thesis
    by (simp add: metadata_of_def map_of_dict_update d1 d2 split: option.splits)
qed

subsection \<open>The two exits of the extraction\<close>

lemma publication_year_block_eq:
  "publication_year_block env pkg s =
     (case year_test_raises pkg of
        Some e \<Rightarrow> Inl e
      | None \<Rightarrow> Inr (add_required ''publicationYear'' (Inr (publication_year env pkg)) s))"
  by (cases "dict_get pkg ''doi_date_published''")
     (simp_all add: publication_year_block_def year_test_raises_def publication_year_def Let_def)

lemma geolocations_block_eq:
  "geolocations_block env pkg s =
     (case geo_escapes env pkg of
        Some e \<Rightarrow> Inl e
      | None \<Rightarrow> Inr (geo_store (get_geolocations env pkg) s))"
  by (simp add: geolocations_block_def geo_escapes_def geo_store_def split: option.splits prod.splits)

lemma extract_fields_eq:
  "extract_fields env pkg =
     (case year_test_raises pkg of
        Some e \<Rightarrow> Inl e
      | None \<Rightarrow> (case geo_escapes env pkg of Some e \<Rightarrow> Inl e | None \<Rightarrow> Inr (extracted env pkg)))"
  by (simp add: extract_fields_def extracted_def Let_def publication_year_block_eq geolocations_block_eq
      split: option.splits)

lemma extract_fields_Inr:
  "extract_fields env pkg = Inr s \<Longrightarrow>
   s = extracted env pkg \<and> year_test_raises pkg = None \<and> geo_escapes env pkg = None"
  by (simp add: extract_fields_eq split: option.splits)


subsection \<open>Evaluation on the samples\<close>

lemmas prim_defs = dict_get_default_def dict_get_def dict_getitem_def dict_has_def dict_set_def dict_update_def
  py_or_def digit_char_def str_int_def isdecimal_def the_str_def the_int_def py_set_def py_sorted_def
  py_sum_def py_str_def the_list_def

lemmas block_defs = required_init_def optional_init_def st_init_def set_required_def set_optional_def
  set_error_def set_date_error_def add_required_def try_optional_def creator_entry_def get_creators_def
  contributor_entry_def get_contributors_def get_titles_def publication_year_block_def tag_name_def
  get_subjects_def dates_item_def try_date_def dates_block_def get_alternate_identifiers_def
  related_entry_def get_related_identifiers_def related_identifiers_block_def get_sizes_def
  get_formats_def get_rights_def rights_block_def get_descriptions_def location_features_def
  point_entry_def box_entry_def geo_loop_def geo_caught_def get_geolocations_def geolocations_block_def
  funder_entry_def get_funding_references_def funding_block_def extract_fields_def metadata_of_def
  required_error_msg_def optional_error_msg_def enforce_required_def build_metadata_dict_def

lemmas sample_defs = sample_env_def sample_literal_eval_def sample_date_or_none_def sample_register_def
  sample_float_str_def sample_related_def sample_funder_def pkg_no_date_def pkg_dated_def pkg_ok_def

lemmas eval_simps = prim_defs block_defs sample_defs Let_def nat_str.simps int_truediv_1024_small

section \<open>Properties of the extractor and the projector\<close>

subsection \<open>Publication year\<close>




lemma resource_sizes_eq:
  "list_all sized_resource rs \<Longrightarrow>
   map_result (\<lambda>r. bnd (py_get r ''size'') (\<lambda>size. Inr (py_or size (PInt 0)))) rs =
     Inr (map (\<lambda>r. PInt (size_or_zero r)) rs)"
proof (induction rs)
  case Nil
  then show ?case by simp
next
  case (Cons r rs)
  from Cons.prems obtain d where r: "r = PDict d"
    by (cases r) (simp_all add: sized_resource_def)
  from Cons.prems have "bnd (py_get r ''size'') (\<lambda>size. Inr (py_or size (PInt 0))) = Inr (PInt (size_or_zero r))"
    by (cases "dict_get d ''size''") (simp_all add: r sized_resource_def size_or_zero_def py_or_def)
  with Cons show ?case by simp
qed

lemma py_sum_from_ints:
  "py_sum_from acc (map (\<lambda>r. PInt (f r)) rs) = Inr (acc + sum_list (map f rs))"
  by (induction rs arbitrary: acc) simp_all

lemma get_sizes_ints:
  assumes res: "dict_get pkg ''resources'' = PList rs \<or> (dict_get pkg ''resources'' = PNone \<and> rs = [])"
    and sized: "list_all sized_resource rs"
    and lo: "0 \<le> total_size rs" and hi: "total_size rs < 2 ^ 53"
  shows "get_sizes pkg = Inr (PList [PStr (str_int (total_size rs div 1024) @ '' kb'')])"
proof -
  have it: "py_iter (py_or (dict_get_default pkg ''resources'' (PList [])) (PList [])) = Inr rs"
    using res by (auto simp: dict_get_def dict_get_default_def py_or_def split: option.splits)
  show ?thesis
    using sized lo hi
    by (simp add: get_sizes_def it resource_sizes_eq py_sum_def py_sum_from_ints total_size_def
        int_truediv_1024_small)
qed

lemma extracted_sizes:
  "map_of (optional (extracted env pkg)) ''sizes'' =
     Some (case get_sizes pkg of Inr v \<Rightarrow> v | Inl e \<Rightarrow> PList [])"
  by (simp add: extracted_def optional_init_def st_init_def split: sum.splits)

lemma metadata_of_optional:
  "keys_ok s \<Longrightarrow> map_of (optional s) k = Some v \<Longrightarrow> dict_get (metadata_of s) k = v"
  by (simp add: dict_get_def dict_get_default_def metadata_of_lookup)

subsection \<open>Sizes\<close>

text \<open>
  Claim C8, amended. When the base extraction returns, \<^verbatim>\<open>resources\<close> is absent, \<^verbatim>\<open>None\<close>
  or a list of dictionaries whose \<^verbatim>\<open>size\<close> is absent, \<^verbatim>\<open>None\<close> or an integer, and the
  sum of the sizes (absent and \<^verbatim>\<open>None\<close> counted as zero) is at least 0 and below \<open>2 ^ 53\<close>,
  then \<^verbatim>\<open>sizes\<close> is the one-element list holding the sum divided by 1024 (integer
  division), followed by \<^verbatim>\<open>' kb'\<close>.
\<close>

theorem sizes_sum_in_kb:
  assumes "extract_fields env pkg = Inr s"
    and "dict_get pkg ''resources'' = PList rs \<or> (dict_get pkg ''resources'' = PNone \<and> rs = [])"
    and "list_all sized_resource rs"
    and "0 \<le> total_size rs" and "total_size rs < 2 ^ 53"
  shows "dict_get (metadata_of s) ''sizes'' = PList [PStr (str_int (total_size rs div 1024) @ '' kb'')]"
proof -
  from assms(1) have s: "s = extracted env pkg"
    by (simp add: extract_fields_Inr)
  have "map_of (optional s) ''sizes'' = Some (PList [PStr (str_int (total_size rs div 1024) @ '' kb'')])"
    unfolding s extracted_sizes by (simp add: get_sizes_ints [OF assms(2-5)])
  then show ?thesis
    unfolding s by (rule metadata_of_optional [OF keys_ok_extracted])
qed

text \<open>The example of the claim: sizes \<^verbatim>\<open>[1024, 2048, None]\<close> give \<^verbatim>\<open>["3 kb"]\<close>.\<close>

lemma sample_no_exit:
  "year_test_raises pkg_no_date = None" "geo_escapes sample_env pkg_no_date = None"
  "year_test_raises (pkg_dated (PStr d)) = None" "geo_escapes sample_env (pkg_dated v) = None"
  "year_test_raises pkg_string_size = None" "geo_escapes sample_env pkg_string_size = None"
  by (simp_all add: year_test_raises_def geo_escapes_def get_geolocations_def dict_get_def
      dict_get_default_def pkg_dated_def pkg_no_date_def pkg_string_size_def)

theorem sizes_sum_in_kb_witness:
  "extract_fields sample_env pkg_ok = Inr (extracted sample_env pkg_ok) \<and>
   dict_get pkg_ok ''resources'' =
     PList [PDict [(''size'', PInt 1024)], PDict [(''size'', PInt 2048)], PDict [(''size'', PNone)]] \<and>
   dict_get (metadata_of (extracted sample_env pkg_ok)) ''sizes'' = PList [PStr ''3 kb'']"
proof -
  let ?rs = "[PDict [(''size'', PInt 1024)], PDict [(''size'', PInt 2048)], PDict [(''size'', PNone)]]"
  have a: "extract_fields sample_env pkg_ok = Inr (extracted sample_env pkg_ok)"
    by (simp add: extract_fields_eq pkg_ok_def sample_no_exit)
  have r: "dict_get pkg_ok ''resources'' = PList ?rs"
    by (simp add: dict_get_def dict_get_default_def pkg_ok_def pkg_dated_def pkg_no_date_def)
  have t: "total_size ?rs = 3072" and w: "list_all sized_resource ?rs"
    by (simp_all add: total_size_def size_or_zero_def sized_resource_def dict_get_def dict_get_default_def)
  have k: "str_int (3072 div 1024) = ''3''"
    by (simp add: str_int_def nat_str.simps digit_char_def)
  show ?thesis
    using sizes_sum_in_kb [OF a, of ?rs] r w t k by (simp add: a)
qed

text \<open>The claim as stated covers every source record. A resource whose size is the
  string \<^verbatim>\<open>'2048'\<close> makes \<^verbatim>\<open>sum\<close> raise \<^verbatim>\<open>TypeError\<close>: \<^verbatim>\<open>sizes\<close> keeps its default, the
  empty list, and the error is recorded.\<close>

theorem sizes_counterexample:
  "dict_get pkg_string_size ''resources'' = PList [PDict [(''size'', PStr ''2048'')]] \<and>
   extract_fields sample_env pkg_string_size = Inr (extracted sample_env pkg_string_size) \<and>
   dict_get (metadata_of (extracted sample_env pkg_string_size)) ''sizes'' = PList [] \<and>
   map_of (errors (extracted sample_env pkg_string_size)) ''sizes'' = Some TypeError"
proof -
  have g: "get_sizes pkg_string_size = Inl TypeError"
    by (simp add: get_sizes_def dict_get_def dict_get_default_def py_or_def py_sum_def pkg_string_size_def)
  have e: "map_of (errors (extracted sample_env pkg_string_size)) ''sizes'' = Some TypeError"
    by (simp add: extracted_def g)
  have "map_of (optional (extracted sample_env pkg_string_size)) ''sizes'' = Some (PList [])"
    by (simp add: extracted_sizes g)
  then have "dict_get (metadata_of (extracted sample_env pkg_string_size)) ''sizes'' = PList []"
    by (rule metadata_of_optional [OF keys_ok_extracted])
  then show ?thesis
    by (simp add: e extract_fields_eq sample_no_exit)
       (simp add: dict_get_def dict_get_default_def pkg_string_size_def)
qed

text \<open>Why the sum is bounded in the amended claim: the division goes through a float
  and \<^verbatim>\<open>int\<close> truncates towards zero, so above \<open>2 ^ 53\<close> and below 0 the result is not
  the integer quotient.\<close>

lemma int_truediv_1024_rounds:
  "int_truediv_1024 (2 ^ 63 - 1) = Inr (2 ^ 53)" "(2 ^ 63 - 1) div (1024 :: int) = 2 ^ 53 - 1"
  "int_truediv_1024 (- 1) = Inr 0" "(- 1) div (1024 :: int) = - 1"
  by code_simp+

lemma extracted_rights:
  "map_of (optional (extracted env pkg)) ''rightsList'' =
     Some (case get_rights env pkg of Inr (Some v) \<Rightarrow> v | _ \<Rightarrow> PList [])"
  by (simp add: extracted_def rights_block_def optional_init_def st_init_def split: sum.splits option.splits)

lemma get_rights_cases:
  "(case get_rights env pkg of Inr (Some v) \<Rightarrow> v | _ \<Rightarrow> PList []) =
     (if license_identifier pkg = PStr ''cc-by-4.0-international''
      then PList [PDict
             [(''rightsUri'', PStr ''https://spdx.org/licenses/CC-BY-4.0.html''),
              (''rightsIdentifier'', PStr ''CC-BY-4.0''),
              (''rightsIdentifierScheme'', PStr ''SPDX'')]]
      else if license_identifier pkg \<noteq> PStr [] \<and> license_identifier pkg \<noteq> PNone
      then (case registry_lookup env (license_identifier pkg) of
              Inr (Some lic) \<Rightarrow> PList [PDict [(''rightsUri'', lic_url lic), (''rightsIdentifier'', lic_id lic)]]
            | _ \<Rightarrow> PList [])
      else PList [PDict [(''rights'', license_identifier pkg)]])"
  by (cases "get_license_register env")
     (auto simp: get_rights_def license_identifier_def registry_lookup_def Let_def
       split: sum.splits option.splits)

subsection \<open>Rights\<close>

text \<open>
  Claim C7. Whenever the base extraction returns, \<^verbatim>\<open>rightsList\<close> follows the precedence on
  the license identifier (\<^verbatim>\<open>license_id\<close>, falling back to \<^verbatim>\<open>license\<close>): for
  \<^verbatim>\<open>'cc-by-4.0-international'\<close> it is the one SPDX entry; otherwise, for an identifier that
  is neither empty nor \<^verbatim>\<open>None\<close>, it is one entry with the registry's URL and identifier
  when the lookup finds a license and the default empty list when it does not (when it
  finds nothing, and also when it raises); otherwise it is the one entry that maps
  \<^verbatim>\<open>rights\<close> to the raw identifier.
\<close>

theorem rights_list_precedence:
  assumes "extract_fields env pkg = Inr s"
  shows "dict_get (metadata_of s) ''rightsList'' =
     (if license_identifier pkg = PStr ''cc-by-4.0-international''
      then PList [PDict
             [(''rightsUri'', PStr ''https://spdx.org/licenses/CC-BY-4.0.html''),
              (''rightsIdentifier'', PStr ''CC-BY-4.0''),
              (''rightsIdentifierScheme'', PStr ''SPDX'')]]
      else if license_identifier pkg \<noteq> PStr [] \<and> license_identifier pkg \<noteq> PNone
      then (case registry_lookup env (license_identifier pkg) of
              Inr (Some lic) \<Rightarrow> PList [PDict [(''rightsUri'', lic_url lic), (''rightsIdentifier'', lic_id lic)]]
            | _ \<Rightarrow> PList [])
      else PList [PDict [(''rights'', license_identifier pkg)]])"
proof -
  from assms have s: "s = extracted env pkg"
    by (simp add: extract_fields_Inr)
  have "dict_get (metadata_of s) ''rightsList'' =
      (case get_rights env pkg of Inr (Some v) \<Rightarrow> v | _ \<Rightarrow> PList [])"
    unfolding s by (rule metadata_of_optional [OF keys_ok_extracted extracted_rights])
  then show ?thesis
    by (simp only: get_rights_cases)
qed

text \<open>The four branches on the samples: the CC-BY literal, an identifier the registry
  knows, one it does not know, one it cannot look up (a list is not hashable), and no
  identifier at all.\<close>

lemma pkg_licensed_no_exit:
  "year_test_raises (pkg_licensed v) = None" "geo_escapes sample_env (pkg_licensed v) = None"
  by (simp_all add: year_test_raises_def geo_escapes_def get_geolocations_def dict_get_def
      dict_get_default_def pkg_licensed_def pkg_no_date_def)

lemma pkg_licensed_identifier:
  "v \<noteq> PNone \<Longrightarrow> license_identifier (pkg_licensed v) = v"
  "license_identifier pkg_no_date = PStr []"
  by (simp_all add: license_identifier_def dict_get_def dict_get_default_def pkg_licensed_def pkg_no_date_def)

theorem rights_list_precedence_witness:
  "extract_fields sample_env (pkg_licensed (PStr ''cc-by-4.0-international'')) =
     Inr (extracted sample_env (pkg_licensed (PStr ''cc-by-4.0-international''))) \<and>
   dict_get (metadata_of (extracted sample_env (pkg_licensed (PStr ''cc-by-4.0-international'')))) ''rightsList'' =
     PList [PDict
       [(''rightsUri'', PStr ''https://spdx.org/licenses/CC-BY-4.0.html''),
        (''rightsIdentifier'', PStr ''CC-BY-4.0''),
        (''rightsIdentifierScheme'', PStr ''SPDX'')]] \<and>
   dict_get (metadata_of (extracted sample_env (pkg_licensed (PStr ''cc-zero'')))) ''rightsList'' =
     PList [PDict
       [(''rightsUri'', PStr ''http://www.opendefinition.org/licenses/cc-zero''),
        (''rightsIdentifier'', PStr ''cc-zero'')]] \<and>
   dict_get (metadata_of (extracted sample_env (pkg_licensed (PStr ''unknown'')))) ''rightsList'' = PList [] \<and>
   dict_get (metadata_of (extracted sample_env (pkg_licensed (PList [])))) ''rightsList'' = PList [] \<and>
   dict_get (metadata_of (extracted sample_env pkg_no_date)) ''rightsList'' = PList [PDict [(''rights'', PStr [])]]"
proof -
  have a: "extract_fields sample_env (pkg_licensed v) = Inr (extracted sample_env (pkg_licensed v))" for v
    by (simp add: extract_fields_eq pkg_licensed_no_exit)
  have c: "extract_fields sample_env pkg_no_date = Inr (extracted sample_env pkg_no_date)"
    by (simp add: extract_fields_eq sample_no_exit)
  have l: "registry_lookup sample_env (PStr ''cc-zero'') =
        Inr (Some \<lparr>lic_url = PStr ''http://www.opendefinition.org/licenses/cc-zero'', lic_id = PStr ''cc-zero''\<rparr>)"
      "registry_lookup sample_env (PStr ''unknown'') = Inr None"
      "registry_lookup sample_env (PList []) = Inl TypeError"
    by (simp_all add: registry_lookup_def sample_env_def sample_register_def)
  show ?thesis
    using rights_list_precedence [OF a [of "PStr ''cc-by-4.0-international''"]]
      rights_list_precedence [OF a [of "PStr ''cc-zero''"]]
      rights_list_precedence [OF a [of "PStr ''unknown''"]]
      rights_list_precedence [OF a [of "PList []"]]
      rights_list_precedence [OF c]
    by (simp add: a pkg_licensed_identifier l)
qed

lemma try_date_dates:
  "map_of (optional s) ''dates'' = Some (PList xs) \<Longrightarrow>
   map_of (optional (try_date env t ek v s)) ''dates'' = Some (PList (xs @ date_part env t v))"
  by (simp add: try_date_def date_part_def dict_get_def dict_get_default_def the_list_def
      split: sum.splits)

lemma try_date_date_errors:
  "map_of (date_errors (try_date env t ek v s)) k =
     (if k = ek then (case raised (date_or_none env v) of Some e \<Rightarrow> Some e | None \<Rightarrow> map_of (date_errors s) k)
      else map_of (date_errors s) k)"
  by (simp add: try_date_def split: sum.splits)

lemma dates_block_dates:
  "map_of (optional s) ''dates'' = Some (PList xs) \<Longrightarrow>
   map_of (optional (dates_block env pkg s)) ''dates'' =
     Some (PList (xs @ date_part env ''Created'' (dict_get pkg ''metadata_created'')
                     @ date_part env ''Updated'' (dict_get pkg ''metadata_modified'')
                     @ (if dict_has pkg ''doi_date_published''
                        then date_part env ''Issued'' (dict_get pkg ''doi_date_published'') else [])))"
  by (simp add: dates_block_def Let_def try_date_dates)


lemma extracted_dates:
  "map_of (optional (extracted env pkg)) ''dates'' =
     Some (PList (date_part env ''Created'' (dict_get pkg ''metadata_created'')
                     @ date_part env ''Updated'' (dict_get pkg ''metadata_modified'')
                     @ (if dict_has pkg ''doi_date_published''
                        then date_part env ''Issued'' (dict_get pkg ''doi_date_published'') else [])))"
proof -
  have "map_of (optional (try_optional ''contributors'' (get_contributors env pkg)
        (try_optional ''subjects'' (get_subjects pkg)
          (add_required ''resourceType'' (Inr (dict_get pkg ''type''))
            (add_required ''publicationYear'' (Inr (publication_year env pkg))
              (add_required ''publisher'' (config_get env ''ckanext.doi.publisher'')
                (add_required ''titles'' (Inr (get_titles pkg))
                  (add_required ''creators'' (get_creators env pkg) st_init)))))))) ''dates'' = Some (PList [])"
    by (simp add: optional_init_def st_init_def)
  from dates_block_dates [OF this] show ?thesis
    by (simp add: extracted_def)
qed



subsection \<open>Dates\<close>



lemma same_but_dates_init: "same_but_dates st_init st_init"
  by (simp add: same_but_dates_def)

lemma same_but_dates_add_required:
  "same_but_dates s s' \<Longrightarrow> same_but_dates (add_required k r s) (add_required k r s')"
  by (simp add: same_but_dates_def add_required_def split: sum.splits)

lemma same_but_dates_set_optional:
  "same_but_dates s s' \<Longrightarrow> same_but_dates (set_optional k v s) (set_optional k v s')"
  by (simp add: same_but_dates_def)

lemma same_but_dates_set_error:
  "same_but_dates s s' \<Longrightarrow> same_but_dates (set_error k e s) (set_error k e s')"
  by (simp add: same_but_dates_def)

lemma same_but_dates_try_optional:
  "same_but_dates s s' \<Longrightarrow> same_but_dates (try_optional k r s) (try_optional k r s')"
  by (simp add: try_optional_def same_but_dates_set_optional same_but_dates_set_error split: sum.splits)

lemma same_but_dates_dates_block:
  "same_but_dates s s' \<Longrightarrow> same_but_dates (dates_block env pkg s) (dates_block env' pkg s')"
  by (simp add: same_but_dates_def)

lemma same_but_dates_related:
  assumes "same_but_dates s s'"
  shows "same_but_dates (related_identifiers_block env pkg s) (related_identifiers_block env pkg s')"
proof -
  from assms have "dict_get (optional s) ''relatedIdentifiers'' = dict_get (optional s') ''relatedIdentifiers''"
    by (simp add: same_but_dates_def dict_get_def dict_get_default_def)
  with assms show ?thesis
    by (simp add: related_identifiers_block_def same_but_dates_set_optional same_but_dates_set_error
        split: prod.splits option.splits)
qed

lemma same_but_dates_rights:
  "same_but_dates s s' \<Longrightarrow> same_but_dates (rights_block env pkg s) (rights_block env pkg s')"
  by (simp add: rights_block_def same_but_dates_set_optional same_but_dates_set_error
      split: sum.splits option.splits)

lemma same_but_dates_geo_store:
  "same_but_dates s s' \<Longrightarrow> same_but_dates (geo_store r s) (geo_store r s')"
  by (simp add: geo_store_def same_but_dates_set_optional same_but_dates_set_error
      split: prod.splits option.splits)

lemma same_but_dates_funding:
  "same_but_dates s s' \<Longrightarrow> same_but_dates (funding_block env pkg s) (funding_block env pkg s')"
  by (simp add: funding_block_def Let_def same_but_dates_set_optional same_but_dates_set_error
      split: prod.splits option.splits)

lemma py_str_date_or_none: "py_str (env\<lparr>date_or_none := f, plugins := ps\<rparr>) v = py_str env v"
  by (cases v) (simp_all add: py_str_def)

lemma date_or_none_irrelevant:
  "get_creators (env\<lparr>date_or_none := f, plugins := ps\<rparr>) pkg = get_creators env pkg"
  "get_contributors (env\<lparr>date_or_none := f, plugins := ps\<rparr>) pkg = get_contributors env pkg"
  "get_alternate_identifiers (env\<lparr>date_or_none := f, plugins := ps\<rparr>) pkg = get_alternate_identifiers env pkg"
  "get_rights (env\<lparr>date_or_none := f, plugins := ps\<rparr>) pkg = get_rights env pkg"
  "get_funding_references (env\<lparr>date_or_none := f, plugins := ps\<rparr>) pkg = get_funding_references env pkg"
  "get_related_identifiers (env\<lparr>date_or_none := f, plugins := ps\<rparr>) pkg acc = get_related_identifiers env pkg acc"
  "publication_year (env\<lparr>date_or_none := f, plugins := ps\<rparr>) pkg = publication_year env pkg"
  by (simp_all add: get_creators_def get_contributors_def get_alternate_identifiers_def
      py_str_date_or_none get_rights_def get_funding_references_def get_related_identifiers_def
      publication_year_def cong: if_cong pyval.case_cong)

lemma date_or_none_irrelevant_geo:
  "get_geolocations (env\<lparr>date_or_none := f, plugins := ps\<rparr>) pkg = get_geolocations env pkg"
proof -
  have "point_entry (env\<lparr>date_or_none := f, plugins := ps\<rparr>) = point_entry env"
    "box_entry (env\<lparr>date_or_none := f, plugins := ps\<rparr>) = box_entry env"
    by (simp_all add: fun_eq_iff point_entry_def box_entry_def cong: if_cong)
  then show ?thesis
    by (simp add: get_geolocations_def Let_def cong: if_cong)
qed

lemma date_or_none_irrelevant_blocks:
  "related_identifiers_block (env\<lparr>date_or_none := f, plugins := ps\<rparr>) pkg s = related_identifiers_block env pkg s"
  "rights_block (env\<lparr>date_or_none := f, plugins := ps\<rparr>) pkg s = rights_block env pkg s"
  "funding_block (env\<lparr>date_or_none := f, plugins := ps\<rparr>) pkg s = funding_block env pkg s"
  "geo_escapes (env\<lparr>date_or_none := f, plugins := ps\<rparr>) pkg = geo_escapes env pkg"
  by (simp_all add: related_identifiers_block_def rights_block_def funding_block_def geo_escapes_def
      date_or_none_irrelevant date_or_none_irrelevant_geo)

lemmas same_but_dates_intros =
  same_but_dates_init same_but_dates_add_required same_but_dates_set_optional
  same_but_dates_try_optional same_but_dates_dates_block same_but_dates_related
  same_but_dates_rights same_but_dates_geo_store same_but_dates_funding

lemma same_but_dates_extracted:
  "same_but_dates (extracted (env\<lparr>date_or_none := f, plugins := ps\<rparr>) pkg) (extracted env pkg)"
  unfolding extracted_def
  by (simp add: date_or_none_irrelevant date_or_none_irrelevant_geo date_or_none_irrelevant_blocks)
     (intro same_but_dates_intros)

lemma extract_fields_date_or_none:
  "extract_fields env pkg = Inr s \<Longrightarrow>
   extract_fields (env\<lparr>date_or_none := f, plugins := ps\<rparr>) pkg =
     Inr (extracted (env\<lparr>date_or_none := f, plugins := ps\<rparr>) pkg)"
  by (simp add: extract_fields_eq date_or_none_irrelevant_blocks split: option.splits)

lemma build_metadata_dict_no_plugins:
  "extract_fields env pkg = Inr s \<Longrightarrow>
   build_metadata_dict (env\<lparr>date_or_none := f, plugins := []\<rparr>) pkg =
     enforce_required required_keys xml_optional_keys
       (metadata_of (extracted (env\<lparr>date_or_none := f, plugins := []\<rparr>) pkg)) (errors s)"
proof -
  assume a: "extract_fields env pkg = Inr s"
  then have s: "s = extracted env pkg"
    by (simp add: extract_fields_Inr)
  have "errors (extracted (env\<lparr>date_or_none := f, plugins := []\<rparr>) pkg) = errors s"
    using same_but_dates_extracted [where env = env and f = f and ps = "[]" and pkg = pkg] by (simp add: same_but_dates_def s)
  then show ?thesis
    by (simp add: build_metadata_dict_def extract_fields_date_or_none [OF a]
        required_keys_extracted optional_keys_extracted)
qed

lemma metadata_of_date_or_none:
  assumes "k \<noteq> ''dates''"
  shows "dict_get (metadata_of (extracted (env\<lparr>date_or_none := f, plugins := ps\<rparr>) pkg)) k =
         dict_get (metadata_of (extracted env pkg)) k"
  using same_but_dates_extracted [where env = env and f = f and ps = ps and pkg = pkg] assms
  by (simp add: dict_get_def dict_get_default_def metadata_of_lookup keys_ok_extracted same_but_dates_def
      split: option.splits)

lemma add_missing_required_cong:
  "(\<And>k. k \<in> set ks \<Longrightarrow> dict_get md k = dict_get md' k) \<Longrightarrow>
   add_missing_required ks md errs = add_missing_required ks md' errs"
  by (induction ks arbitrary: errs) simp_all

lemma enforce_required_cong:
  assumes "\<And>k. k \<in> set rk \<Longrightarrow> dict_get md k = dict_get md' k"
  shows "fst (enforce_required rk ok md errs) = fst (enforce_required rk ok md' errs)"
    and "raised (snd (enforce_required rk ok md errs)) = raised (snd (enforce_required rk ok md' errs))"
  using add_missing_required_cong [of rk md md' errs, OF assms]
  by (simp_all add: enforce_required_def Let_def)

lemma extracted_errors_no_dates:
  "map_of (errors (extracted env pkg)) ''dates'' = None"
  "map_of (errors (extracted env pkg)) ''created'' = None"
  "map_of (errors (extracted env pkg)) ''updated'' = None"
  "map_of (errors (extracted env pkg)) ''doi_date_published'' = None"
  by (simp_all add: extracted_def st_init_def)

subsection \<open>Date failures stay local\<close>

text \<open>
  Claim C10. Whenever the base extraction returns, its error map has no entry under
  \<^verbatim>\<open>dates\<close> nor under the keys of \<^verbatim>\<open>date_errors\<close> (\<^verbatim>\<open>created\<close>, \<^verbatim>\<open>updated\<close>,
  \<^verbatim>\<open>doi_date_published\<close>). The error map and the required dictionary handed to the
  extension pass are the same whatever \<^verbatim>\<open>date_or_none\<close> does (\<open>f\<close> is any other
  \<^verbatim>\<open>date_or_none\<close>); and with no plugin registered the log written and the exception
  raised, if any, are the same too. A failure of a date is invisible to the required-field
  enforcement and to the reporting.
\<close>

theorem dates_failure_invisible:
  assumes "extract_fields env pkg = Inr s"
  shows "map_of (errors s) ''dates'' = None \<and> map_of (errors s) ''created'' = None \<and>
         map_of (errors s) ''updated'' = None \<and> map_of (errors s) ''doi_date_published'' = None \<and>
         (\<exists>s'. extract_fields (env\<lparr>date_or_none := f\<rparr>) pkg = Inr s' \<and>
                errors s' = errors s \<and> required s' = required s) \<and>
         fst (build_metadata_dict (env\<lparr>date_or_none := f, plugins := []\<rparr>) pkg) =
           fst (build_metadata_dict (env\<lparr>plugins := []\<rparr>) pkg) \<and>
         raised (snd (build_metadata_dict (env\<lparr>date_or_none := f, plugins := []\<rparr>) pkg)) =
           raised (snd (build_metadata_dict (env\<lparr>plugins := []\<rparr>) pkg))"
proof -
  from assms have s: "s = extracted env pkg"
    by (simp add: extract_fields_Inr)
  have e1: "env\<lparr>date_or_none := f\<rparr> = env\<lparr>date_or_none := f, plugins := plugins env\<rparr>"
    and e2: "env\<lparr>plugins := []\<rparr> = env\<lparr>date_or_none := date_or_none env, plugins := []\<rparr>"
    by simp_all
  have ex: "\<exists>s'. extract_fields (env\<lparr>date_or_none := f\<rparr>) pkg = Inr s' \<and>
                errors s' = errors s \<and> required s' = required s"
    using extract_fields_date_or_none [OF assms, where f = f and ps = "plugins env"]
      same_but_dates_extracted [where env = env and f = f and ps = "plugins env" and pkg = pkg]
    by (simp add: same_but_dates_def s)
  have md: "dict_get (metadata_of (extracted (env\<lparr>date_or_none := f, plugins := []\<rparr>) pkg)) k =
        dict_get (metadata_of (extracted (env\<lparr>date_or_none := date_or_none env, plugins := []\<rparr>) pkg)) k"
    if "k \<in> set required_keys" for k
  proof -
    from that have "k \<noteq> ''dates''"
      by (auto simp: required_keys_def)
    then have "dict_get (metadata_of (extracted (env\<lparr>date_or_none := f, plugins := []\<rparr>) pkg)) k =
          dict_get (metadata_of (extracted env pkg)) k"
      and "dict_get (metadata_of (extracted (env\<lparr>date_or_none := date_or_none env, plugins := []\<rparr>) pkg)) k =
          dict_get (metadata_of (extracted env pkg)) k"
      by (rule metadata_of_date_or_none)+
    then show ?thesis
      by (rule trans [OF _ sym])
  qed
  have b: "build_metadata_dict (env\<lparr>plugins := []\<rparr>) pkg =
      enforce_required required_keys xml_optional_keys
        (metadata_of (extracted (env\<lparr>date_or_none := date_or_none env, plugins := []\<rparr>) pkg)) (errors s)"
    by (subst e2) (rule build_metadata_dict_no_plugins [OF assms])
  show ?thesis
    unfolding b build_metadata_dict_no_plugins [OF assms]
    using ex enforce_required_cong [OF md, where ok = xml_optional_keys and errs = "errors s"]
    by (simp add: s extracted_errors_no_dates)
qed

text \<open>On the package whose creation date does not parse, the failure is in
  \<^verbatim>\<open>date_errors\<close> and not in the error map, and a \<^verbatim>\<open>date_or_none\<close> that never fails gives
  the same log and the same outcome.\<close>

lemma pkg_bad_created_returns:
  "extract_fields sample_env pkg_bad_created = Inr (extracted sample_env pkg_bad_created)"
  by (simp add: extract_fields_eq year_test_raises_def geo_escapes_def get_geolocations_def
      dict_get_def dict_get_default_def pkg_bad_created_def)

lemma pkg_bad_created_date_errors:
  "map_of (date_errors (extracted sample_env pkg_bad_created)) ''created'' = Some ValueError"
  by (simp add: extracted_def dates_block_def Let_def try_date_date_errors dict_has_def dict_get_def
      dict_get_default_def pkg_bad_created_def sample_env_def sample_date_or_none_def)

theorem dates_failure_invisible_witness:
  "extract_fields sample_env pkg_bad_created = Inr (extracted sample_env pkg_bad_created) \<and>
   map_of (date_errors (extracted sample_env pkg_bad_created)) ''created'' = Some ValueError \<and>
   map_of (errors (extracted sample_env pkg_bad_created)) ''dates'' = None \<and>
   map_of (errors (extracted sample_env pkg_bad_created)) ''created'' = None \<and>
   fst (build_metadata_dict (sample_env\<lparr>date_or_none := \<lambda>v. Inr PNone, plugins := []\<rparr>) pkg_bad_created) =
     fst (build_metadata_dict (sample_env\<lparr>plugins := []\<rparr>) pkg_bad_created) \<and>
   raised (snd (build_metadata_dict (sample_env\<lparr>date_or_none := \<lambda>v. Inr PNone, plugins := []\<rparr>) pkg_bad_created)) =
     raised (snd (build_metadata_dict (sample_env\<lparr>plugins := []\<rparr>) pkg_bad_created))"
  using dates_failure_invisible [OF pkg_bad_created_returns, of "\<lambda>v. Inr PNone"]
  by (simp add: pkg_bad_created_returns pkg_bad_created_date_errors)

lemma dict_has_dict_set: "dict_has (dict_set k v d) k' \<longleftrightarrow> k' = k \<or> dict_has d k'"
  by (auto simp: dict_has_def keys_dict_set)

lemma add_missing_required_has:
  "dict_has (add_missing_required ks md errs) k \<longleftrightarrow>
     dict_has errs k \<or> (k \<in> set ks \<and> dict_get md k = PNone)"
proof (induction ks arbitrary: errs)
  case Nil
  then show ?case by simp
next
  case (Cons a ks)
  have n: "map_of errs a = None \<longleftrightarrow> \<not> dict_has errs a"
    by (simp add: dict_has_map_of)
  show ?case
    unfolding add_missing_required.simps Cons.IH n
    by (auto simp: dict_has_dict_set)
qed

lemma filter_keys_set:
  "set (map fst (filter (\<lambda>ke. fst ke \<in> set rk) errs)) = {k \<in> set rk. dict_has errs k}"
  by (induction errs) (auto simp: dict_has_def)

lemma required_errors_keys:
  "set (map fst (filter (\<lambda>ke. fst ke \<in> set rk) (add_missing_required rk md errs))) =
     {k \<in> set rk. required_failed md errs k}"
  unfolding filter_keys_set add_missing_required_has required_failed_def
  by auto

lemma required_errors_empty:
  "filter (\<lambda>ke. fst ke \<in> set rk) (add_missing_required rk md errs) = [] \<longleftrightarrow>
     \<not> (\<exists>k \<in> set rk. required_failed md errs k)"
proof -
  let ?re = "filter (\<lambda>ke. fst ke \<in> set rk) (add_missing_required rk md errs)"
  have "?re = [] \<longleftrightarrow> set (map fst ?re) = {}"
    by (simp only: set_empty map_is_Nil_conv)
  also have "\<dots> \<longleftrightarrow> \<not> (\<exists>k \<in> set rk. required_failed md errs k)"
    unfolding required_errors_keys by auto
  finally show ?thesis .
qed

lemma join_names_each:
  "k \<in> set ks \<Longrightarrow> \<exists>u v. join sep ks = u @ k @ v"
proof (induction sep ks rule: join.induct)
  case (1 sep)
  then show ?case by simp
next
  case (2 sep x)
  then have "join sep [x] = [] @ k @ []" by simp
  then show ?case by blast
next
  case (3 sep x y ys)
  show ?case
  proof (cases "k = x")
    case True
    then have "join sep (x # y # ys) = [] @ k @ (sep @ join sep (y # ys))" by simp
    then show ?thesis by blast
  next
    case False
    with 3 obtain u v where "join sep (y # ys) = u @ k @ v" by auto
    then have "join sep (x # y # ys) = (x @ sep @ u) @ k @ v" by simp
    then show ?thesis by blast
  qed
qed

lemma enforce_required_result:
  "snd (enforce_required rk ok md errs) =
     (if \<exists>k \<in> set rk. required_failed md errs k
      then Inl (DOIMetadataException (required_error_msg
             (filter (\<lambda>ke. fst ke \<in> set rk) (add_missing_required rk md errs))))
      else Inr md)"
  using required_errors_empty [of rk md errs]
  by (simp add: enforce_required_def Let_def)

lemma enforce_required_quiet:
  "\<not> (\<exists>k \<in> set rk. required_failed md errs k) \<Longrightarrow> enforce_required rk ok md errs = ([], Inr md)"
  using required_errors_empty [of rk md errs]
  by (simp add: enforce_required_def Let_def)

subsection \<open>Required-field enforcement\<close>

text \<open>
  Claim C2. Let the base extraction return and the extension pass return the metadata
  dictionary \<open>md\<close> and the error map \<open>errs\<close>. If some required key has an entry in
  \<open>errs\<close> or is \<^verbatim>\<open>None\<close> in \<open>md\<close>, then \<^verbatim>\<open>build_metadata_dict\<close> raises one
  \<^verbatim>\<open>DOIMetadataException\<close> and returns no dictionary; its message is the fixed prefix
  followed by the comma-separated list of exactly the failed required keys, so every one of
  them stands in the message. Otherwise it returns \<open>md\<close>, raises nothing and logs nothing.
\<close>

theorem required_failures_aggregated:
  assumes "extract_fields env pkg = Inr s"
    and "run_plugins (plugins env) pkg (metadata_of s) (errors s) = Inr (md, errs)"
  shows "if \<exists>k \<in> set required_keys. required_failed md errs k
         then \<exists>ks. snd (build_metadata_dict env pkg) =
                  Inl (DOIMetadataException
                    (''Could not extract metadata for the following required keys: '' @ join '', '' ks))
                \<and> set ks = {k \<in> set required_keys. required_failed md errs k}
                \<and> (\<forall>k \<in> set required_keys. required_failed md errs k \<longrightarrow> (\<exists>u v. join '', '' ks = u @ k @ v))
         else build_metadata_dict env pkg = ([], Inr md)"
proof -
  from assms(1) have s: "s = extracted env pkg"
    by (simp add: extract_fields_Inr)
  have b: "build_metadata_dict env pkg = enforce_required required_keys xml_optional_keys md errs"
    using assms by (simp add: build_metadata_dict_def s required_keys_extracted optional_keys_extracted)
  show ?thesis
  proof (cases "\<exists>k \<in> set required_keys. required_failed md errs k")
    case True
    let ?ks = "map fst (filter (\<lambda>ke. fst ke \<in> set required_keys) (add_missing_required required_keys md errs))"
    have 1: "snd (build_metadata_dict env pkg) =
        Inl (DOIMetadataException
          (''Could not extract metadata for the following required keys: '' @ join '', '' ?ks))"
      using True by (simp add: b enforce_required_result required_error_msg_def)
    have 2: "set ?ks = {k \<in> set required_keys. required_failed md errs k}"
      by (rule required_errors_keys)
    have 3: "\<forall>k \<in> set required_keys. required_failed md errs k \<longrightarrow> (\<exists>u v. join '', '' ?ks = u @ k @ v)"
    proof (intro ballI impI)
      fix k assume "k \<in> set required_keys" "required_failed md errs k"
      then have "k \<in> set ?ks" unfolding 2 by simp
      then show "\<exists>u v. join '', '' ?ks = u @ k @ v" by (rule join_names_each)
    qed
    from 1 2 3 True show ?thesis by (simp only: if_True) blast
  next
    case False
    then show ?thesis
      by (simp add: b enforce_required_quiet)
  qed
qed

text \<open>On the empty package \<^verbatim>\<open>creators\<close> fails (\<^verbatim>\<open>literal_eval(None)\<close>) and
  \<^verbatim>\<open>resourceType\<close> is \<^verbatim>\<open>None\<close>: the message names both. On the sample package no
  required key fails and the dictionary is returned.\<close>

lemma pkg_empty_result:
  "build_metadata_dict sample_env pkg_empty =
     ([LogException ''Could not extract metadata for the following required keys: creators, resourceType'',
       LogExceptionCause ''creators'' ValueError,
       LogExceptionCause ''resourceType'' (DOIMetadataException ''Required field cannot be None'')],
      Inl (DOIMetadataException
        ''Could not extract metadata for the following required keys: creators, resourceType''))"
  by (simp add: eval_simps pkg_empty_def)

lemma pkg_empty_returns:
  "extract_fields sample_env pkg_empty = Inr (extracted sample_env pkg_empty)"
  by (simp add: extract_fields_eq year_test_raises_def geo_escapes_def get_geolocations_def
      dict_get_def dict_get_default_def pkg_empty_def)

lemma pkg_ok_returns:
  "extract_fields sample_env pkg_ok = Inr (extracted sample_env pkg_ok)"
  by (simp add: extract_fields_eq pkg_ok_def sample_no_exit)

lemma sample_no_plugins:
  "run_plugins (plugins sample_env) pkg md errs = Inr (md, errs)"
  by (simp add: sample_env_def)

lemma extracted_required:
  "map_of (required (extracted env pkg)) ''creators'' =
     Some (case get_creators env pkg of Inr v \<Rightarrow> v | Inl e \<Rightarrow> PList [])"
  "map_of (required (extracted env pkg)) ''titles'' = Some (get_titles pkg)"
  "map_of (required (extracted env pkg)) ''publisher'' =
     Some (case config_get env ''ckanext.doi.publisher'' of Inr v \<Rightarrow> v | Inl e \<Rightarrow> PNone)"
  "map_of (required (extracted env pkg)) ''publicationYear'' = Some (publication_year env pkg)"
  "map_of (required (extracted env pkg)) ''resourceType'' = Some (dict_get pkg ''type'')"
  by (simp_all add: extracted_def required_init_def st_init_def split: sum.splits)

lemma extracted_required_errors:
  "map_of (errors (extracted env pkg)) ''creators'' = raised (get_creators env pkg)"
  "map_of (errors (extracted env pkg)) ''titles'' = None"
  "map_of (errors (extracted env pkg)) ''publisher'' = raised (config_get env ''ckanext.doi.publisher'')"
  "map_of (errors (extracted env pkg)) ''publicationYear'' = None"
  "map_of (errors (extracted env pkg)) ''resourceType'' = None"
  by (simp_all add: extracted_def st_init_def split: option.splits)

lemma extracted_optional_required_key:
  assumes "k \<in> set required_keys"
  shows "map_of (optional (extracted env pkg)) k = None"
proof -
  have "k \<notin> set (map fst (optional (extracted env pkg)))"
    using assms unfolding optional_keys_extracted
    by (auto simp: required_keys_def xml_optional_keys_def)
  then show ?thesis
    by (simp add: map_of_eq_None_iff)
qed

lemma metadata_of_required:
  "k \<in> set required_keys \<Longrightarrow>
   dict_get (metadata_of (extracted env pkg)) k = dict_get (required (extracted env pkg)) k"
  by (simp add: dict_get_def dict_get_default_def metadata_of_lookup keys_ok_extracted
      extracted_optional_required_key)

lemma get_creators_not_None: "get_creators env pkg \<noteq> Inr PNone"
proof (cases "literal_eval env (dict_get pkg ''author'')")
  case (Inl e)
  then show ?thesis by (simp add: get_creators_def)
next
  case (Inr auth_list)
  show ?thesis
  proof (cases auth_list)
    case (PList auth_dicts)
    then show ?thesis
      using Inr by (cases "map_result creator_entry auth_dicts") (simp_all add: get_creators_def)
  qed (simp_all add: get_creators_def Inr)
qed

lemma base_required_values:
  "dict_get (metadata_of (extracted env pkg)) ''creators'' =
     (case get_creators env pkg of Inr v \<Rightarrow> v | Inl e \<Rightarrow> PList [])"
  "dict_get (metadata_of (extracted env pkg)) ''titles'' = get_titles pkg"
  "dict_get (metadata_of (extracted env pkg)) ''publisher'' =
     (case config_get env ''ckanext.doi.publisher'' of Inr v \<Rightarrow> v | Inl e \<Rightarrow> PNone)"
  "dict_get (metadata_of (extracted env pkg)) ''publicationYear'' = publication_year env pkg"
  "dict_get (metadata_of (extracted env pkg)) ''resourceType'' = dict_get pkg ''type''"
proof -
  have r: "dict_get (metadata_of (extracted env pkg)) k = v"
    if "k \<in> set required_keys" "map_of (required (extracted env pkg)) k = Some v" for k v
    using that by (simp add: metadata_of_required) (simp add: dict_get_def dict_get_default_def)
  show "dict_get (metadata_of (extracted env pkg)) ''creators'' =
     (case get_creators env pkg of Inr v \<Rightarrow> v | Inl e \<Rightarrow> PList [])"
    by (rule r) (simp_all add: required_keys_def extracted_required)
  show "dict_get (metadata_of (extracted env pkg)) ''titles'' = get_titles pkg"
    by (rule r) (simp_all add: required_keys_def extracted_required)
  show "dict_get (metadata_of (extracted env pkg)) ''publisher'' =
     (case config_get env ''ckanext.doi.publisher'' of Inr v \<Rightarrow> v | Inl e \<Rightarrow> PNone)"
    by (rule r) (simp_all add: required_keys_def extracted_required)
  show "dict_get (metadata_of (extracted env pkg)) ''publicationYear'' = publication_year env pkg"
    by (rule r) (simp_all add: required_keys_def extracted_required)
  show "dict_get (metadata_of (extracted env pkg)) ''resourceType'' = dict_get pkg ''type''"
    by (rule r) (simp_all add: required_keys_def extracted_required)
qed

lemma base_required_failed:
  "required_failed (metadata_of (extracted env pkg)) (errors (extracted env pkg)) ''creators'' \<longleftrightarrow>
     raised (get_creators env pkg) \<noteq> None"
  "\<not> required_failed (metadata_of (extracted env pkg)) (errors (extracted env pkg)) ''titles''"
  "required_failed (metadata_of (extracted env pkg)) (errors (extracted env pkg)) ''publisher'' \<longleftrightarrow>
     raised (config_get env ''ckanext.doi.publisher'') \<noteq> None \<or> config_get env ''ckanext.doi.publisher'' = Inr PNone"
  "\<not> required_failed (metadata_of (extracted env pkg)) (errors (extracted env pkg)) ''publicationYear''"
  "required_failed (metadata_of (extracted env pkg)) (errors (extracted env pkg)) ''resourceType'' \<longleftrightarrow>
     dict_get pkg ''type'' = PNone"
proof -
  have cr: "(case get_creators env pkg of Inr v \<Rightarrow> v | Inl e \<Rightarrow> PList []) \<noteq> PNone"
    using get_creators_not_None [of env pkg] by (cases "get_creators env pkg") simp_all
  have py: "publication_year env pkg \<noteq> PNone"
    by (simp add: publication_year_def split: pyval.splits)
  note defs = required_failed_def dict_has_map_of base_required_values extracted_required_errors
  show "required_failed (metadata_of (extracted env pkg)) (errors (extracted env pkg)) ''creators'' \<longleftrightarrow>
     raised (get_creators env pkg) \<noteq> None"
    by (simp add: defs cr)
  show "\<not> required_failed (metadata_of (extracted env pkg)) (errors (extracted env pkg)) ''titles''"
    by (simp add: defs get_titles_def)
  show "required_failed (metadata_of (extracted env pkg)) (errors (extracted env pkg)) ''publisher'' \<longleftrightarrow>
     raised (config_get env ''ckanext.doi.publisher'') \<noteq> None \<or> config_get env ''ckanext.doi.publisher'' = Inr PNone"
    by (cases "config_get env ''ckanext.doi.publisher''") (simp_all add: defs)
  show "\<not> required_failed (metadata_of (extracted env pkg)) (errors (extracted env pkg)) ''publicationYear''"
    by (simp add: defs py)
  show "required_failed (metadata_of (extracted env pkg)) (errors (extracted env pkg)) ''resourceType'' \<longleftrightarrow>
     dict_get pkg ''type'' = PNone"
    by (simp add: defs)
qed

lemma sample_creators:
  "get_creators sample_env pkg_empty = Inl ValueError"
  "get_creators sample_env pkg_ok = Inr (PList [])"
  by (simp_all add: get_creators_def dict_get_def dict_get_default_def pkg_empty_def pkg_ok_def
      pkg_dated_def pkg_no_date_def sample_env_def sample_literal_eval_def)

lemma sample_publisher: "config_get sample_env ''ckanext.doi.publisher'' = Inr (PStr ''AuScope'')"
  by (simp add: sample_env_def)

lemma sample_type:
  "dict_get pkg_empty ''type'' = PNone" "dict_get pkg_ok ''type'' = PStr ''dataset''"
  by (simp_all add: dict_get_def dict_get_default_def pkg_empty_def pkg_ok_def pkg_dated_def pkg_no_date_def)

lemma pkg_empty_failed:
  "required_failed (metadata_of (extracted sample_env pkg_empty)) (errors (extracted sample_env pkg_empty)) ''creators''"
  "required_failed (metadata_of (extracted sample_env pkg_empty)) (errors (extracted sample_env pkg_empty)) ''resourceType''"
  by (simp_all add: base_required_failed sample_creators sample_type)

lemma pkg_ok_not_failed:
  "\<not> (\<exists>k \<in> set required_keys. required_failed (metadata_of (extracted sample_env pkg_ok)) (errors (extracted sample_env pkg_ok)) k)"
  by (simp add: required_keys_def base_required_failed sample_creators sample_type sample_publisher)

theorem required_failures_aggregated_witness:
  "extract_fields sample_env pkg_empty = Inr (extracted sample_env pkg_empty) \<and>
   required_failed (metadata_of (extracted sample_env pkg_empty)) (errors (extracted sample_env pkg_empty)) ''creators'' \<and>
   required_failed (metadata_of (extracted sample_env pkg_empty)) (errors (extracted sample_env pkg_empty)) ''resourceType'' \<and>
   snd (build_metadata_dict sample_env pkg_empty) =
     Inl (DOIMetadataException
       ''Could not extract metadata for the following required keys: creators, resourceType'') \<and>
   extract_fields sample_env pkg_ok = Inr (extracted sample_env pkg_ok) \<and>
   build_metadata_dict sample_env pkg_ok = ([], Inr (metadata_of (extracted sample_env pkg_ok)))"
  using required_failures_aggregated [OF pkg_empty_returns sample_no_plugins]
    required_failures_aggregated [OF pkg_ok_returns sample_no_plugins]
    pkg_ok_not_failed
  by (simp add: pkg_empty_returns pkg_ok_returns pkg_empty_failed pkg_empty_result)

lemma st_init_sel [simp]:
  "required st_init = required_init" "optional st_init = optional_init"
  "errors st_init = []" "date_errors st_init = []"
  by (simp_all add: st_init_def)

lemma extracted_related_acc:
  "dict_get (optional (try_optional ''alternateIdentifiers'' r1
      (try_optional ''language'' r2
        (dates_block env pkg
          (try_optional ''contributors'' r3
            (try_optional ''subjects'' r4
              (add_required ''resourceType'' r5
                (add_required ''publicationYear'' r6
                  (add_required ''publisher'' r7
                    (add_required ''titles'' r8
                      (add_required ''creators'' r9 st_init))))))))))) ''relatedIdentifiers'' = PList []"
  by (simp add: dict_get_def dict_get_default_def optional_init_def)

lemma case_option_id: "(case x of None \<Rightarrow> None | Some e \<Rightarrow> Some e) = x"
  by (cases x) simp_all

lemma extracted_errors_optional:
  "map_of (errors (extracted env pkg)) ''subjects'' = raised (get_subjects pkg)"
  "map_of (errors (extracted env pkg)) ''contributors'' = raised (get_contributors env pkg)"
  "map_of (errors (extracted env pkg)) ''language'' = raised (ckan_lang env)"
  "map_of (errors (extracted env pkg)) ''alternateIdentifiers'' = raised (get_alternate_identifiers env pkg)"
  "map_of (errors (extracted env pkg)) ''relatedIdentifiers'' = snd (get_related_identifiers env pkg [])"
  "map_of (errors (extracted env pkg)) ''sizes'' = raised (get_sizes pkg)"
  "map_of (errors (extracted env pkg)) ''formats'' = raised (get_formats pkg)"
  "map_of (errors (extracted env pkg)) ''rightsList'' = raised (get_rights env pkg)"
  by (simp_all add: extracted_def extracted_related_acc the_list_def case_option_id
      cong: option.case_cong)

lemma extracted_errors_geo:
  "map_of (errors (extracted env pkg)) ''geoLocations'' =
     (case get_geolocations env pkg of Some (items, err) \<Rightarrow> err | None \<Rightarrow> None)"
proof (cases "get_geolocations env pkg")
  case None
  then show ?thesis
    by (simp add: extracted_def case_option_id cong: option.case_cong)
next
  case (Some r)
  then show ?thesis
    by (cases r; cases "snd r") (simp_all add: extracted_def case_option_id cong: option.case_cong)
qed

lemma extracted_errors_funding:
  "map_of (errors (extracted env pkg)) ''fundingReferences'' =
     (if dict_get_default pkg ''funder'' (PStr []) = PStr [] then None
      else snd (get_funding_references env pkg))"
  by (simp add: extracted_def case_option_id cong: option.case_cong)

lemma extracted_errors_other:
  assumes "k \<noteq> ''creators''" "k \<noteq> ''publisher''" "k \<noteq> ''subjects''" "k \<noteq> ''contributors''"
    "k \<noteq> ''language''" "k \<noteq> ''alternateIdentifiers''" "k \<noteq> ''relatedIdentifiers''"
    "k \<noteq> ''sizes''" "k \<noteq> ''formats''" "k \<noteq> ''rightsList''" "k \<noteq> ''geoLocations''"
    "k \<noteq> ''fundingReferences''"
  shows "map_of (errors (extracted env pkg)) k = None"
  using assms by (simp add: extracted_def)

lemma extracted_errors:
  "map_of (errors (extracted env pkg)) k = field_failure env pkg k"
proof -
  note at = extracted_required_errors extracted_errors_optional extracted_errors_geo
    extracted_errors_funding
  have 1: ?thesis if "k = ''creators''" unfolding that at by (simp add: field_failure_def)
  have 2: ?thesis if "k = ''publisher''" unfolding that at by (simp add: field_failure_def)
  have 3: ?thesis if "k = ''subjects''" unfolding that at by (simp add: field_failure_def)
  have 4: ?thesis if "k = ''contributors''" unfolding that at by (simp add: field_failure_def)
  have 5: ?thesis if "k = ''language''" unfolding that at by (simp add: field_failure_def)
  have 6: ?thesis if "k = ''alternateIdentifiers''" unfolding that at by (simp add: field_failure_def)
  have 7: ?thesis if "k = ''relatedIdentifiers''" unfolding that at by (simp add: field_failure_def)
  have 8: ?thesis if "k = ''sizes''" unfolding that at by (simp add: field_failure_def)
  have 9: ?thesis if "k = ''formats''" unfolding that at by (simp add: field_failure_def)
  have 10: ?thesis if "k = ''rightsList''" unfolding that at by (simp add: field_failure_def)
  have 11: ?thesis if "k = ''geoLocations''" unfolding that at by (simp add: field_failure_def)
  have 12: ?thesis if "k = ''fundingReferences''" unfolding that at by (simp add: field_failure_def)
  have 13: ?thesis
    if "k \<noteq> ''creators''" "k \<noteq> ''publisher''" "k \<noteq> ''subjects''" "k \<noteq> ''contributors''"
      "k \<noteq> ''language''" "k \<noteq> ''alternateIdentifiers''" "k \<noteq> ''relatedIdentifiers''"
      "k \<noteq> ''sizes''" "k \<noteq> ''formats''" "k \<noteq> ''rightsList''" "k \<noteq> ''geoLocations''"
      "k \<noteq> ''fundingReferences''"
    using that by (simp add: extracted_errors_other field_failure_def)
  from 1 2 3 4 5 6 7 8 9 10 11 12 13 show ?thesis
    by argo
qed





subsection \<open>Field failures are collected\<close>







lemma dict_has_Nil [simp]: "\<not> dict_has [] k"
  by (simp add: dict_has_def)

lemma dict_has_Cons [simp]: "dict_has (kv # d) k \<longleftrightarrow> k = fst kv \<or> dict_has d k"
  by (auto simp: dict_has_def)

lemma dict_has_dict_update:
  "dict_has (dict_update d d2) k \<longleftrightarrow> dict_has d k \<or> dict_has d2 k"
proof -
  have "dict_has (foldl (\<lambda>acc kv. dict_set (fst kv) (snd kv) acc) d d2) k \<longleftrightarrow> dict_has d k \<or> dict_has d2 k"
  proof (induction d2 arbitrary: d)
    case Nil
    then show ?case by simp
  next
    case (Cons kv d2)
    show ?case
      unfolding foldl_Cons Cons.IH by (auto simp: dict_has_dict_set)
  qed
  then show ?thesis
    by (simp add: dict_update_def)
qed

lemma stringify_date_ok:
  "dated_entry d \<Longrightarrow> \<exists>v. stringify_date env d = Inr v"
proof (cases d)
  case (PDict kv)
  assume "dated_entry d"
  then have "dict_has (dict_update [] kv) ''date''"
    by (simp add: dated_entry_def PDict dict_has_dict_update)
  then obtain v where "map_of (dict_update [] kv) ''date'' = Some v"
    by (auto simp: dict_has_map_of)
  then show ?thesis
    by (simp add: stringify_date_def PDict dict_getitem_def)
qed (simp_all add: dated_entry_def)

lemma map_result_ok:
  "list_all (\<lambda>x. \<exists>v. f x = Inr v) xs \<Longrightarrow> \<exists>vs. map_result f xs = Inr vs"
  by (induction xs) auto

lemma stringify_dates_ok:
  "list_all dated_entry ds \<Longrightarrow> \<exists>vs. map_result (stringify_date env) ds = Inr vs"
  by (rule map_result_ok) (simp add: list_all_iff stringify_date_ok)

lemma xml_optional_loop_returns:
  "dates_ok md \<Longrightarrow> \<exists>xml. xml_optional_loop env md ks xml0 = Inr xml"
proof (induction ks arbitrary: xml0)
  case Nil
  then show ?case by simp
next
  case (Cons k ks)
  show ?case
  proof (cases "has_value (dict_get md k) \<and> k = ''dates''")
    case True
    with Cons.prems obtain ds where ds: "dict_get md ''dates'' = PList ds" "list_all dated_entry ds"
      by (auto simp: dates_ok_def split: pyval.splits)
    from stringify_dates_ok [OF ds(2)] obtain vs where "map_result (stringify_date env) ds = Inr vs"
      by blast
    with True ds Cons.IH [OF Cons.prems] show ?thesis
      by (simp add: Let_def)
  next
    case False
    with Cons.IH [OF Cons.prems] show ?thesis
      by (auto simp: Let_def)
  qed
qed

lemma xml_optional_loop_has:
  "xml_optional_loop env md ks xml0 = Inr xml \<Longrightarrow>
   dict_has xml k \<longleftrightarrow> dict_has xml0 k \<or> (k \<in> set ks \<and> has_value (dict_get md k))"
proof (induction ks arbitrary: xml0)
  case Nil
  then show ?case by simp
next
  case (Cons a ks)
  show ?case
  proof (cases "has_value (dict_get md a)")
    case False
    with Cons.prems have "xml_optional_loop env md ks xml0 = Inr xml"
      by (simp add: Let_def)
    from Cons.IH [OF this] False show ?thesis
      by auto
  next
    case True
    show ?thesis
    proof (cases "a = ''dates''")
      case False
      with True Cons.prems have "xml_optional_loop env md ks (dict_set a (dict_get md a) xml0) = Inr xml"
        by (simp add: Let_def)
      from Cons.IH [OF this] True show ?thesis
        by (auto simp: dict_has_dict_set)
    next
      case d: True
      with True Cons.prems obtain item where
        "xml_optional_loop env md ks (dict_set a (PList item) xml0) = Inr xml"
        by (cases "py_iter (dict_get md ''dates'')";
            cases "map_result (stringify_date env) (projr (py_iter (dict_get md ''dates'')))")
           (auto simp: Let_def)
      from Cons.IH [OF this] True show ?thesis
        by (auto simp: dict_has_dict_set)
    qed
  qed
qed

lemma xml_optional_loop_other:
  "xml_optional_loop env md ks xml0 = Inr xml \<Longrightarrow> k \<notin> set ks \<Longrightarrow> map_of xml k = map_of xml0 k"
proof (induction ks arbitrary: xml0)
  case Nil
  then show ?case by simp
next
  case (Cons a ks)
  from Cons.prems(2) have ne: "k \<noteq> a" and nk: "k \<notin> set ks"
    by auto
  from Cons.prems(1) obtain v where "xml_optional_loop env md ks xml0 = Inr xml
      \<or> xml_optional_loop env md ks (dict_set a v xml0) = Inr xml"
    by (cases "py_iter (dict_get md a)";
        cases "map_result (stringify_date env) (projr (py_iter (dict_get md a)))")
       (auto simp: Let_def split: if_splits)
  then show ?case
    using Cons.IH [OF _ nk] ne by auto
qed

lemma has_value_iff:
  "has_value v \<longleftrightarrow> v \<noteq> PNone \<and> (\<exists>n. py_len v = Inr n \<and> 0 < n)"
  "\<not> has_value v \<longleftrightarrow> v = PNone \<or> py_len v = Inr 0 \<or> isl (py_len v)"
  by (cases v; simp add: has_value_def)+

lemma xml_required_lookup:
  "map_of (xml_required env md) ''schemaVersion'' = Some (PStr ''http://datacite.org/schema/kernel-4'')"
  "map_of (xml_required env md) ''types'' =
     Some (PDict [(''resourceType'', dict_get md ''resourceType''), (''resourceTypeGeneral'', PStr ''Dataset'')])"
  "map_of (xml_required env md) ''publicationYear'' = Some (PStr (py_str env (dict_get md ''publicationYear'')))"
  by (simp_all add: xml_required_def)

lemma xml_required_has_no_optional:
  "k \<in> set xml_optional_keys \<Longrightarrow> \<not> dict_has (xml_required env md) k"
  by (auto simp: xml_optional_keys_def xml_required_def dict_has_dict_set)

subsection \<open>The projection\<close>

text \<open>
  Claim C6. With no plugin registered, \<^verbatim>\<open>build_xml_dict\<close> returns a document for every
  metadata dictionary whose \<^verbatim>\<open>dates\<close> is well formed, and every document it returns omits
  each optional key whose value is \<^verbatim>\<open>None\<close>, has length zero or has no length, holds each
  optional key whose value is not \<^verbatim>\<open>None\<close> and has a length above zero, and has
  \<^verbatim>\<open>schemaVersion\<close>, the \<^verbatim>\<open>types\<close> block made of the metadata's \<^verbatim>\<open>resourceType\<close> and the
  constant \<^verbatim>\<open>Dataset\<close>, and \<^verbatim>\<open>publicationYear\<close> as the string \<^verbatim>\<open>str()\<close> gives.
\<close>

theorem projection_optional_and_fixed_keys:
  assumes "plugins env = []"
  shows "(dates_ok md \<longrightarrow> (\<exists>xml. build_xml_dict env md = Inr xml)) \<and>
         (\<forall>xml. build_xml_dict env md = Inr xml \<longrightarrow>
            (\<forall>k \<in> set xml_optional_keys.
               (dict_get md k = PNone \<or> py_len (dict_get md k) = Inr 0 \<or> isl (py_len (dict_get md k))
                  \<longrightarrow> \<not> dict_has xml k) \<and>
               (dict_get md k \<noteq> PNone \<and> (\<exists>n. py_len (dict_get md k) = Inr n \<and> 0 < n)
                  \<longrightarrow> dict_has xml k)) \<and>
            dict_get xml ''schemaVersion'' = PStr ''http://datacite.org/schema/kernel-4'' \<and>
            dict_get xml ''types'' =
              PDict [(''resourceType'', dict_get md ''resourceType''), (''resourceTypeGeneral'', PStr ''Dataset'')] \<and>
            dict_get xml ''publicationYear'' = PStr (py_str env (dict_get md ''publicationYear'')))"
proof -
  have b: "build_xml_dict env md = xml_optional_loop env md xml_optional_keys (xml_required env md)"
    by (cases "xml_optional_loop env md xml_optional_keys (xml_required env md)")
       (simp_all add: build_xml_dict_def assms)
  have total: "dates_ok md \<longrightarrow> (\<exists>xml. build_xml_dict env md = Inr xml)"
    unfolding b by (simp add: xml_optional_loop_returns)
  have props: "(\<forall>k \<in> set xml_optional_keys.
               (dict_get md k = PNone \<or> py_len (dict_get md k) = Inr 0 \<or> isl (py_len (dict_get md k))
                  \<longrightarrow> \<not> dict_has xml k) \<and>
               (dict_get md k \<noteq> PNone \<and> (\<exists>n. py_len (dict_get md k) = Inr n \<and> 0 < n)
                  \<longrightarrow> dict_has xml k)) \<and>
            dict_get xml ''schemaVersion'' = PStr ''http://datacite.org/schema/kernel-4'' \<and>
            dict_get xml ''types'' =
              PDict [(''resourceType'', dict_get md ''resourceType''), (''resourceTypeGeneral'', PStr ''Dataset'')] \<and>
            dict_get xml ''publicationYear'' = PStr (py_str env (dict_get md ''publicationYear''))"
    if r: "build_xml_dict env md = Inr xml" for xml
  proof -
    from r have l: "xml_optional_loop env md xml_optional_keys (xml_required env md) = Inr xml"
      by (simp add: b)
    have opt: "dict_has xml k \<longleftrightarrow> has_value (dict_get md k)" if "k \<in> set xml_optional_keys" for k
      using xml_optional_loop_has [OF l, of k] that by (simp add: xml_required_has_no_optional)
    have fixed: "map_of xml k = map_of (xml_required env md) k" if "k \<notin> set xml_optional_keys" for k
      using l that by (rule xml_optional_loop_other)
    have f: "map_of xml ''schemaVersion'' = map_of (xml_required env md) ''schemaVersion''"
      "map_of xml ''types'' = map_of (xml_required env md) ''types''"
      "map_of xml ''publicationYear'' = map_of (xml_required env md) ''publicationYear''"
      by (rule fixed, simp add: xml_optional_keys_def)+
    show ?thesis
      using opt by (simp add: dict_get_def [of xml] dict_get_default_def [of xml] f xml_required_lookup
          has_value_iff [symmetric])
  qed
  from total props show ?thesis
    by blast
qed

text \<open>On the sample dictionary the empty list, the empty string, \<^verbatim>\<open>None\<close> and the integer
  are omitted, the language is kept, and the year \<^verbatim>\<open>2026\<close> becomes \<^verbatim>\<open>"2026"\<close>.\<close>

lemma sample_md_projection: "build_xml_dict sample_env sample_md = Inr sample_xml"
  by (simp add: build_xml_dict_def xml_optional_keys_def xml_required_def has_value_def
      stringify_date_def dict_get_def dict_get_default_def dict_getitem_def dict_set_def dict_update_def
      py_str_def str_int_def nat_str.simps digit_char_def Let_def sample_md_def sample_xml_def
      sample_env_def)

theorem projection_optional_and_fixed_keys_witness:
  "plugins sample_env = [] \<and> dates_ok sample_md \<and>
   build_xml_dict sample_env sample_md = Inr sample_xml \<and>
   dict_get sample_md ''subjects'' = PList [] \<and> \<not> dict_has sample_xml ''subjects'' \<and>
   dict_get sample_md ''version'' = PStr [] \<and> \<not> dict_has sample_xml ''version'' \<and>
   dict_get sample_md ''rightsList'' = PNone \<and> \<not> dict_has sample_xml ''rightsList'' \<and>
   dict_get sample_md ''relatedIdentifiers'' = PInt 7 \<and> \<not> dict_has sample_xml ''relatedIdentifiers'' \<and>
   dict_get sample_md ''language'' = PStr ''en'' \<and> dict_has sample_xml ''language'' \<and>
   dict_get sample_xml ''publicationYear'' = PStr ''2026''"
proof -
  have p: "plugins sample_env = []"
    by (simp add: sample_env_def)
  have d: "dates_ok sample_md"
    by (simp add: dates_ok_def has_value_def dated_entry_def dict_get_def dict_get_default_def sample_md_def)
  have v: "dict_get sample_md ''subjects'' = PList []" "dict_get sample_md ''version'' = PStr []"
    "dict_get sample_md ''rightsList'' = PNone" "dict_get sample_md ''relatedIdentifiers'' = PInt 7"
    "dict_get sample_md ''language'' = PStr ''en''" "dict_get sample_md ''publicationYear'' = PInt 2026"
    by (simp_all add: dict_get_def dict_get_default_def sample_md_def)
  have y: "py_str sample_env (PInt 2026) = ''2026''"
    by (simp add: py_str_def str_int_def nat_str.simps digit_char_def)
  from projection_optional_and_fixed_keys [OF p, of sample_md] sample_md_projection
  have "(\<forall>k \<in> set xml_optional_keys.
               (dict_get sample_md k = PNone \<or> py_len (dict_get sample_md k) = Inr 0 \<or> isl (py_len (dict_get sample_md k))
                  \<longrightarrow> \<not> dict_has sample_xml k) \<and>
               (dict_get sample_md k \<noteq> PNone \<and> (\<exists>n. py_len (dict_get sample_md k) = Inr n \<and> 0 < n)
                  \<longrightarrow> dict_has sample_xml k)) \<and>
        dict_get sample_xml ''publicationYear'' = PStr (py_str sample_env (dict_get sample_md ''publicationYear''))"
    by blast
  then show ?thesis
    by (simp add: xml_optional_keys_def v y p d sample_md_projection)
qed

subsection \<open>The extractor's dates are well formed\<close>

lemma dated_entry_date_part: "list_all dated_entry (date_part env t v)"
  by (simp add: date_part_def dates_item_def dated_entry_def split: sum.splits)

lemma extracted_dates_ok: "dates_ok (metadata_of (extracted env pkg))"
  by (simp add: dates_ok_def metadata_of_optional [OF keys_ok_extracted extracted_dates]
      dated_entry_date_part)

subsection \<open>Partial lists\<close>

lemma extracted_related:
  "map_of (optional (extracted env pkg)) ''relatedIdentifiers'' =
     Some (PList (fst (get_related_identifiers env pkg [])))"
  by (simp add: extracted_def related_identifiers_block_def extracted_related_acc the_list_def
      split: prod.splits option.splits)

lemma extracted_funding:
  "map_of (optional (extracted env pkg)) ''fundingReferences'' =
     Some (if dict_get_default pkg ''funder'' (PStr []) = PStr [] then PList []
           else (case fst (get_funding_references env pkg) of None \<Rightarrow> PList [] | Some items \<Rightarrow> PList items))"
  by (simp add: extracted_def funding_block_def Let_def optional_init_def
      split: prod.splits option.splits)

text \<open>A literal that does not parse leaves both fields at their default.\<close>

lemma unparsable_keeps_default:
  assumes "extract_fields env pkg = Inr s"
  shows "literal_eval env (dict_get pkg ''related_resource'') = Inl e \<Longrightarrow>
           dict_get (metadata_of s) ''relatedIdentifiers'' = PList []"
    and "literal_eval env (dict_get pkg ''funder'') = Inl e \<Longrightarrow>
           dict_get (metadata_of s) ''fundingReferences'' = PList []"
proof -
  from assms have s: "s = extracted env pkg"
    by (simp add: extract_fields_Inr)
  show "dict_get (metadata_of s) ''relatedIdentifiers'' = PList []"
    if "literal_eval env (dict_get pkg ''related_resource'') = Inl e"
    unfolding s metadata_of_optional [OF keys_ok_extracted extracted_related]
    using that by (simp add: get_related_identifiers_def)
  show "dict_get (metadata_of s) ''fundingReferences'' = PList []"
    if "literal_eval env (dict_get pkg ''funder'') = Inl e"
    unfolding s metadata_of_optional [OF keys_ok_extracted extracted_funding]
    using that by (simp add: get_funding_references_def)
qed

lemma pkg_partial_fields:
  "get_related_identifiers sample_env pkg_partial [] =
     ([PDict [(''relatedIdentifier'', PStr ''https://example.org/a''),
              (''relatedIdentifierType'', PStr ''URL''),
              (''relationType'', PStr ''Cites'')]], Some KeyError)"
  "get_funding_references sample_env pkg_partial =
     (Some [PDict [(''funderName'', PStr ''ARC''),
                   (''funderIdentifier'', PStr ''Q781401''),
                   (''funderIdentifierType'', PStr ''Other'')]], Some KeyError)"
  "dict_get_default pkg_partial ''funder'' (PStr []) = PStr sample_funder"
  "get_creators sample_env pkg_partial = Inr (PList [])"
  "dict_get pkg_partial ''type'' = PStr ''dataset''"
  "year_test_raises pkg_partial = None"
  "geo_escapes sample_env pkg_partial = None"
  by (simp_all add: get_related_identifiers_def related_entry_def get_funding_references_def
      funder_entry_def get_creators_def year_test_raises_def geo_escapes_def get_geolocations_def
      dict_getitem_def dict_get_def dict_get_default_def pkg_partial_def pkg_no_date_def
      sample_env_def sample_literal_eval_def sample_related_def sample_funder_def)

text \<open>
  Claim C3 says that a malformed optional input, for example a list whose second entry
  lacks a required key, leaves the field at its default and never a partial list. The code
  on such a package: the second entry of \<^verbatim>\<open>related_resource\<close> has no \<^verbatim>\<open>relation_type\<close> and
  the second entry of \<^verbatim>\<open>funder\<close> has no \<^verbatim>\<open>funder_name\<close>; both loops append to the list in
  \<^verbatim>\<open>optional\<close> itself, so \<^verbatim>\<open>build_metadata_dict\<close> returns a dictionary whose
  \<^verbatim>\<open>relatedIdentifiers\<close> and \<^verbatim>\<open>fundingReferences\<close> hold the first entry, with the
  \<^verbatim>\<open>KeyError\<close> recorded under each key.
\<close>

theorem partial_lists_survive:
  "dict_get pkg_partial ''related_resource'' = PStr sample_related \<and>
   dict_get pkg_partial ''funder'' = PStr sample_funder \<and>
   build_metadata_dict sample_env pkg_partial = ([], Inr (metadata_of (extracted sample_env pkg_partial))) \<and>
   map_of (errors (extracted sample_env pkg_partial)) ''relatedIdentifiers'' = Some KeyError \<and>
   dict_get (metadata_of (extracted sample_env pkg_partial)) ''relatedIdentifiers'' =
     PList [PDict [(''relatedIdentifier'', PStr ''https://example.org/a''),
                   (''relatedIdentifierType'', PStr ''URL''),
                   (''relationType'', PStr ''Cites'')]] \<and>
   map_of (errors (extracted sample_env pkg_partial)) ''fundingReferences'' = Some KeyError \<and>
   dict_get (metadata_of (extracted sample_env pkg_partial)) ''fundingReferences'' =
     PList [PDict [(''funderName'', PStr ''ARC''),
                   (''funderIdentifier'', PStr ''Q781401''),
                   (''funderIdentifierType'', PStr ''Other'')]]"
proof -
  have nf: "sample_funder \<noteq> []"
    by (simp add: sample_funder_def)
  have q: "\<not> (\<exists>k \<in> set required_keys. required_failed (metadata_of (extracted sample_env pkg_partial))
      (errors (extracted sample_env pkg_partial)) k)"
    by (simp add: required_keys_def base_required_failed pkg_partial_fields sample_publisher)
  have b: "build_metadata_dict sample_env pkg_partial = ([], Inr (metadata_of (extracted sample_env pkg_partial)))"
    using q
    by (simp add: build_metadata_dict_def extract_fields_eq pkg_partial_fields sample_no_plugins
        required_keys_extracted optional_keys_extracted enforce_required_quiet)
  have d: "dict_get pkg_partial ''related_resource'' = PStr sample_related"
    "dict_get pkg_partial ''funder'' = PStr sample_funder"
    by (simp_all add: dict_get_def dict_get_default_def pkg_partial_def pkg_no_date_def)
  show ?thesis
    by (simp add: b d extracted_errors field_failure_def pkg_partial_fields nf
        metadata_of_optional [OF keys_ok_extracted extracted_related]
        metadata_of_optional [OF keys_ok_extracted extracted_funding])
qed

subsection \<open>Optional errors are never reported\<close>

text \<open>The test of line 335 reads \<^verbatim>\<open>required_errors\<close>, which is empty whenever line 335 is
  reached: no debug record is ever written.\<close>

lemma never_logs_debug:
  "LogDebug m \<notin> set (fst (enforce_required rk ok md errs))"
  "LogDebugCause k e \<notin> set (fst (enforce_required rk ok md errs))"
  by (auto simp: enforce_required_def Let_def)

lemma build_metadata_dict_never_logs_debug:
  "LogDebug m \<notin> set (fst (build_metadata_dict env pkg))"
  by (simp add: build_metadata_dict_def never_logs_debug split: sum.splits prod.splits)

text \<open>
  Claim C5 says that when \<^verbatim>\<open>build_metadata_dict\<close> returns and the error map has entries for
  optional keys, the diagnostic message listing them is emitted. The code on the sample
  package: the error map holds the \<^verbatim>\<open>ValueError\<close> of \<^verbatim>\<open>relatedIdentifiers\<close>, the dictionary
  is returned, and the log is empty.
\<close>

theorem optional_errors_not_logged:
  "map_of (errors (extracted sample_env pkg_ok)) ''relatedIdentifiers'' = Some ValueError \<and>
   extract_fields sample_env pkg_ok = Inr (extracted sample_env pkg_ok) \<and>
   build_metadata_dict sample_env pkg_ok = ([], Inr (metadata_of (extracted sample_env pkg_ok)))"
proof -
  have "get_related_identifiers sample_env pkg_ok [] = ([], Some ValueError)"
    by (simp add: get_related_identifiers_def dict_get_def dict_get_default_def pkg_ok_def
        pkg_dated_def pkg_no_date_def sample_env_def sample_literal_eval_def)
  then have e: "map_of (errors (extracted sample_env pkg_ok)) ''relatedIdentifiers'' = Some ValueError"
    by (simp add: extracted_errors field_failure_def)
  have b: "build_metadata_dict sample_env pkg_ok = ([], Inr (metadata_of (extracted sample_env pkg_ok)))"
    using pkg_ok_not_failed
    by (simp add: build_metadata_dict_def pkg_ok_returns sample_no_plugins
        required_keys_extracted optional_keys_extracted enforce_required_quiet)
  show ?thesis
    by (simp add: e b pkg_ok_returns)
qed

end
